theory Spec2Isabelle
  imports Main "HOL-Library.Word" "HOL-Library.FSet" "HOL-Library.Finite_Map"
begin

section \<open>Omega metadata registries (infra/MetaData.h, infra/MetaData.cpp)\<close>

text \<open>
  The three classes \<open>MetaDim\<close>, \<open>MetaData\<close> and \<open>MetaGroup\<close> each keep a static
  \<open>std::map\<close> from names to \<open>std::shared_ptr\<close>s. The embedding threads one record of
  all static state through every function. Objects live in a store indexed by
  addresses; a \<open>std::shared_ptr\<close> is an \<open>addr option\<close> with \<open>None\<close> for
  \<open>nullptr\<close>. Two pointers compare equal exactly when they are the same address.
\<close>

subsection \<open>Scalar types and \<open>std::any\<close>\<close>

text \<open>
  Modelled from the spec: the header DataTypes.h, which declares \<open>I4\<close>, \<open>I8\<close>,
  \<open>R4\<close> and \<open>R8\<close>, is not among the sources; the spec names them 32/64-bit integer and
  32/64-bit floating point. The code stores, copies and returns the floating-point
  values and never computes with them, so they are carried as their bit patterns; two
  such values are equal here when they are the same pattern.
\<close>

type_synonym I4 = "32 word"
type_synonym I8 = "64 word"
type_synonym R4 = "32 word"
type_synonym R8 = "64 word"

text \<open>
  A \<open>std::any\<close> holds nothing or one value together with its exact type. Beside the six
  kinds the metadata interface supports, the kind \<open>AnyCharPtr\<close> stands for the
  \<open>const char *\<close> that \<open>std::make_pair("Meta3", "MyValue3")\<close> puts into the container.
\<close>

datatype std_any =
    AnyEmpty
  | AnyI4 I4
  | AnyI8 I8
  | AnyR4 R4
  | AnyR8 R8
  | AnyBool bool
  | AnyString string
  | AnyCharPtr string

text \<open>
  What a call can do other than return: \<open>std::any_cast<T>\<close> on a container whose
  content is not exactly a \<open>T\<close> throws \<open>std::bad_any_cast\<close>; \<open>operator[]\<close> of a
  \<open>std::vector\<close> past its size and \<open>operator->\<close> of a null pointer are undefined
  behaviour.
\<close>

datatype abnormal =
    Throw_bad_any_cast
  | UB_vector_index
  | UB_null_dereference

fun any_cast_I4 :: "std_any \<Rightarrow> abnormal + I4" where
  "any_cast_I4 (AnyI4 v) = Inr v"
| "any_cast_I4 _ = Inl Throw_bad_any_cast"

fun any_cast_I8 :: "std_any \<Rightarrow> abnormal + I8" where
  "any_cast_I8 (AnyI8 v) = Inr v"
| "any_cast_I8 _ = Inl Throw_bad_any_cast"

fun any_cast_R4 :: "std_any \<Rightarrow> abnormal + R4" where
  "any_cast_R4 (AnyR4 v) = Inr v"
| "any_cast_R4 _ = Inl Throw_bad_any_cast"

fun any_cast_R8 :: "std_any \<Rightarrow> abnormal + R8" where
  "any_cast_R8 (AnyR8 v) = Inr v"
| "any_cast_R8 _ = Inl Throw_bad_any_cast"

fun any_cast_bool :: "std_any \<Rightarrow> abnormal + bool" where
  "any_cast_bool (AnyBool v) = Inr v"
| "any_cast_bool _ = Inl Throw_bad_any_cast"

fun any_cast_string :: "std_any \<Rightarrow> abnormal + string" where
  "any_cast_string (AnyString v) = Inr v"
| "any_cast_string _ = Inl Throw_bad_any_cast"

subsection \<open>Diagnostics\<close>

text \<open>
  One constructor per \<open>LOG_ERROR\<close> call of MetaData.cpp, with the arguments the call
  formats into its message.
\<close>

datatype diag =
    FieldAlreadyExists string
      \<comment> \<open>Failed to create a field instance because {} already exists.\<close>
  | FieldCreateFailed string
      \<comment> \<open>Metadata create failed for field {}\<close>
  | FieldDestroyNotFound string
      \<comment> \<open>Failed to destroy metadata for the field {}: field does not exist.\<close>
  | FieldEraseUnknown string
      \<comment> \<open>Unknown error erasing metadata for field {}\<close>
  | FieldGetNotFound string
      \<comment> \<open>Failed to retrieve metadata for field {}: Field with that name does not exist\<close>
  | EntryAlreadyExists string string
      \<comment> \<open>Failed to add the metadata {} to field {} because the field already has an
          entry with that name.\<close>
  | EntryRemoveNotFound string string
      \<comment> \<open>Failed to remove the metadata {} from field {} because an entry with that name
          does not exist.\<close>
  | EntryEraseUnknown string string
      \<comment> \<open>Unknown error trying to erase metadata {} from field {}\<close>
  | EntryNotFound string string
      \<comment> \<open>Metadata {} does not exist for field {}.\<close>
  | DimLengthConflict string
      \<comment> \<open>Attempt to create dimension {} but a dimension with that name already exists
          with different length\<close>
  | DimDestroyNotFound string
      \<comment> \<open>Failed to destroy the dimension {} because the dimension name does not exist.\<close>
  | DimEraseUnknown string
      \<comment> \<open>Unknown error erasing Dimension {}\<close>
  | DimGetNotFound string
      \<comment> \<open>Failed to retrieve dimension {} because it does not exist or has not net been
          defined\<close>
  | DimLengthNotFound string
      \<comment> \<open>Cannot get length of dimension {}: dimension does not exist or has not been
          defined\<close>
  | GroupAlreadyExists string
      \<comment> \<open>Attempt to create a metadata group {} that already exists.\<close>
  | GroupDestroyNotFound string
      \<comment> \<open>Failed to destroy the metadata group {}: group not found\<close>
  | GroupEraseUnknown string
      \<comment> \<open>Unknown error trying to erase metadata group {}.\<close>
  | GroupGetNotFound string
      \<comment> \<open>Failed to retrieve MetaGroup {}: group does not exist.\<close>
  | FieldNotDefined string string
      \<comment> \<open>Cannot add the field {} to Group {}: Field not defined\<close>
  | FieldNotInGroup string string
      \<comment> \<open>Failed to get field {} from group {}: field not in group.\<close>
  | FieldRemoveNotInGroup string string
      \<comment> \<open>Failed to remove field {} from group {} because the field is not a group member\<close>
  | FieldEraseFromGroupUnknown string string
      \<comment> \<open>Unknown error erasing field {} from group {}.\<close>

subsection \<open>Objects and the static state\<close>

type_synonym addr = nat

record MetaDim =
  DimName :: string
  Length :: I4

record MetaData =
  FieldName :: string
  MetaMap :: "(string, std_any) fmap"
  NDims :: int
  DimNames :: "string list"

record MetaGroup =
  GrpName :: string
  Fields :: "string fset"

text \<open>
  \<open>AllFields\<close>, \<open>AllDims\<close> and \<open>AllGroups\<close> are the static maps; the code only ever
  stores pointers that \<open>std::make_shared\<close> returned in them, so their values are
  addresses. The three stores hold every object allocated so far. Addresses are handed
  out in increasing order and never reused: the release of an object whose last
  \<open>shared_ptr\<close> went away is not modelled, since nothing can reach such an object.
  \<open>ErrorLog\<close> is the sink that \<open>LOG_ERROR\<close> writes to.
\<close>

record globals =
  AllFields :: "(string, addr) fmap"
  AllDims :: "(string, addr) fmap"
  AllGroups :: "(string, addr) fmap"
  DataStore :: "addr \<Rightarrow> MetaData"
  DimStore :: "addr \<Rightarrow> MetaDim"
  GroupStore :: "addr \<Rightarrow> MetaGroup"
  NextAddr :: addr
  ErrorLog :: "diag list"

text \<open>
  Modelled from the spec: the macro \<open>LOG_ERROR\<close> of Logging.h is not among the sources;
  the spec treats it as a sink that a failure is reported to while the call goes on and
  returns its error code.
\<close>

definition LOG_ERROR :: "diag \<Rightarrow> globals \<Rightarrow> globals" where
  "LOG_ERROR d s = s\<lparr>ErrorLog := ErrorLog s @ [d]\<rparr>"

text \<open>
  \<open>std::make_shared<T>()\<close> value-initialises the new object: none of the three classes
  declares a constructor, so the strings and containers are empty and the scalar members
  \<open>Length\<close> and \<open>NDims\<close> are zero.
\<close>

definition make_shared_MetaDim :: "globals \<Rightarrow> addr \<times> globals" where
  "make_shared_MetaDim s =
     (NextAddr s,
      s\<lparr>DimStore := (DimStore s)(NextAddr s := \<lparr>DimName = [], Length = 0\<rparr>),
        NextAddr := Suc (NextAddr s)\<rparr>)"

definition make_shared_MetaData :: "globals \<Rightarrow> addr \<times> globals" where
  "make_shared_MetaData s =
     (NextAddr s,
      s\<lparr>DataStore := (DataStore s)(NextAddr s :=
           \<lparr>FieldName = [], MetaMap = fmempty, NDims = 0, DimNames = []\<rparr>),
        NextAddr := Suc (NextAddr s)\<rparr>)"

definition make_shared_MetaGroup :: "globals \<Rightarrow> addr \<times> globals" where
  "make_shared_MetaGroup s =
     (NextAddr s,
      s\<lparr>GroupStore := (GroupStore s)(NextAddr s := \<lparr>GrpName = [], Fields = {||}\<rparr>),
        NextAddr := Suc (NextAddr s)\<rparr>)"

text \<open>The state at program start: the three static maps are default-constructed.\<close>

definition init_globals :: globals where
  "init_globals =
     \<lparr>AllFields = fmempty, AllDims = fmempty, AllGroups = fmempty,
      DataStore = (\<lambda>_. \<lparr>FieldName = [], MetaMap = fmempty, NDims = 0, DimNames = []\<rparr>),
      DimStore = (\<lambda>_. \<lparr>DimName = [], Length = 0\<rparr>),
      GroupStore = (\<lambda>_. \<lparr>GrpName = [], Fields = {||}\<rparr>),
      NextAddr = 0, ErrorLog = []\<rparr>"

text \<open>
  \<open>std::map::erase(key)\<close> and \<open>std::set::erase(key)\<close> return the number of elements
  removed.
\<close>

definition map_erase :: "'k \<Rightarrow> ('k, 'v) fmap \<Rightarrow> nat \<times> ('k, 'v) fmap" where
  "map_erase k m = ((if k |\<in>| fmdom m then 1 else 0), fmdrop k m)"

definition set_erase :: "'k \<Rightarrow> 'k fset \<Rightarrow> nat \<times> 'k fset" where
  "set_erase k A = ((if k |\<in>| A then 1 else 0), A |-| {|k|})"

subsection \<open>MetaData: the field registry and its records\<close>

definition MetaData_has :: "string \<Rightarrow> globals \<Rightarrow> bool" where
  "MetaData_has Name s = (Name |\<in>| fmdom (AllFields s))"

text \<open>\<open>MetaData::create(Name)\<close>, the bare form.\<close>

definition MetaData_create :: "string \<Rightarrow> globals \<Rightarrow> addr option \<times> globals" where
  "MetaData_create Name s =
     (if MetaData_has Name s then (None, LOG_ERROR (FieldAlreadyExists Name) s)
      else
        let (Data, s1) = make_shared_MetaData s;
            s2 = s1\<lparr>DataStore := (DataStore s1)(Data := (DataStore s1 Data)\<lparr>FieldName := Name\<rparr>)\<rparr>;
            s3 = s2\<lparr>AllFields := fmupd Name Data (AllFields s2)\<rparr>
        in (Some Data, s3))"

definition hasEntry :: "addr \<Rightarrow> string \<Rightarrow> globals \<Rightarrow> bool" where
  "hasEntry this Name s = (Name |\<in>| fmdom (MetaMap (DataStore s this)))"

definition addEntry :: "addr \<Rightarrow> string \<Rightarrow> std_any \<Rightarrow> globals \<Rightarrow> int \<times> globals" where
  "addEntry this Name Value s =
     (if hasEntry this Name s
      then (- 1, LOG_ERROR (EntryAlreadyExists Name (FieldName (DataStore s this))) s)
      else (0, s\<lparr>DataStore := (DataStore s)(this :=
                   (DataStore s this)\<lparr>MetaMap := fmupd Name Value (MetaMap (DataStore s this))\<rparr>)\<rparr>))"

definition removeEntry :: "addr \<Rightarrow> string \<Rightarrow> globals \<Rightarrow> int \<times> globals" where
  "removeEntry this Name s =
     (if \<not> hasEntry this Name s
      then (- 1, LOG_ERROR (EntryRemoveNotFound Name (FieldName (DataStore s this))) s)
      else
        let (n, m) = map_erase Name (MetaMap (DataStore s this));
            s1 = s\<lparr>DataStore := (DataStore s)(this := (DataStore s this)\<lparr>MetaMap := m\<rparr>)\<rparr>
        in if n \<noteq> 1
           then (- 2, LOG_ERROR (EntryEraseUnknown Name (FieldName (DataStore s1 this))) s1)
           else (0, s1))"

text \<open>
  The full form of \<open>MetaData::create\<close>. The three \<open>std::string\<close> parameters are stored
  as strings; the status each \<open>addEntry\<close> returns is dropped, as in the source.
\<close>

definition MetaData_create_full ::
  "string \<Rightarrow> string \<Rightarrow> string \<Rightarrow> string \<Rightarrow> std_any \<Rightarrow> std_any \<Rightarrow> std_any \<Rightarrow> int \<Rightarrow>
   string list \<Rightarrow> globals \<Rightarrow> addr option \<times> globals" where
  "MetaData_create_full Name Description Units StdName ValidMin ValidMax FillValue NumDims
     Dimensions s =
     (case MetaData_create Name s of
        (Some Data, s1) \<Rightarrow>
          let s2 = s1\<lparr>DataStore := (DataStore s1)(Data :=
                      (DataStore s1 Data)\<lparr>NDims := NumDims, DimNames := Dimensions\<rparr>)\<rparr>;
              s3 = snd (addEntry Data ''Description'' (AnyString Description) s2);
              s4 = snd (addEntry Data ''Units'' (AnyString Units) s3);
              s5 = snd (addEntry Data ''StdName'' (AnyString StdName) s4);
              s6 = snd (addEntry Data ''ValidMin'' ValidMin s5);
              s7 = snd (addEntry Data ''ValidMax'' ValidMax s6);
              s8 = snd (addEntry Data ''FillValue'' FillValue s7)
          in (Some Data, s8)
      | (None, s1) \<Rightarrow> (None, LOG_ERROR (FieldCreateFailed Name) s1))"

text \<open>The loop of the list form over its (name, value) pairs.\<close>

primrec addEntries :: "addr \<Rightarrow> (string \<times> std_any) list \<Rightarrow> globals \<Rightarrow> globals" where
  "addEntries Data [] s = s"
| "addEntries Data (MetaPair # MetaPairs) s =
     addEntries Data MetaPairs (snd (addEntry Data (fst MetaPair) (snd MetaPair) s))"

definition MetaData_create_pairs ::
  "string \<Rightarrow> (string \<times> std_any) list \<Rightarrow> globals \<Rightarrow> addr option \<times> globals" where
  "MetaData_create_pairs Name MetaPairs s =
     (case MetaData_create Name s of
        (Some Data, s1) \<Rightarrow>
          let s2 = s1\<lparr>DataStore := (DataStore s1)(Data := (DataStore s1 Data)\<lparr>NDims := 0\<rparr>)\<rparr>
          in (Some Data, addEntries Data MetaPairs s2)
      | (None, s1) \<Rightarrow> (None, LOG_ERROR (FieldCreateFailed Name) s1))"

definition MetaData_destroy :: "string \<Rightarrow> globals \<Rightarrow> int \<times> globals" where
  "MetaData_destroy Name s =
     (if \<not> MetaData_has Name s then (- 1, LOG_ERROR (FieldDestroyNotFound Name) s)
      else
        let (n, m) = map_erase Name (AllFields s);
            s1 = s\<lparr>AllFields := m\<rparr>
        in if n \<noteq> 1 then (- 2, LOG_ERROR (FieldEraseUnknown Name) s1) else (0, s1))"

definition MetaData_clear :: "globals \<Rightarrow> globals" where
  "MetaData_clear s = s\<lparr>AllFields := fmempty\<rparr>"

text \<open>
  \<open>AllFields[Name]\<close> is read only where \<open>has(Name)\<close> holds, so it is a plain lookup.
\<close>

definition MetaData_get :: "string \<Rightarrow> globals \<Rightarrow> addr option \<times> globals" where
  "MetaData_get Name s =
     (if \<not> MetaData_has Name s then (None, LOG_ERROR (FieldGetNotFound Name) s)
      else (fmlookup (AllFields s) Name, s))"

definition getNumDims :: "addr \<Rightarrow> globals \<Rightarrow> int" where
  "getNumDims this s = NDims (DataStore s this)"

text \<open>
  \<open>std::vector::resize(n)\<close> keeps the first \<open>n\<close> elements and pads with empty strings.
\<close>

definition vector_resize :: "nat \<Rightarrow> string list \<Rightarrow> string list" where
  "vector_resize n xs = take n xs @ replicate (n - length xs) []"

text \<open>
  The copy loop of \<open>getDimNames\<close>:
  \<open>for (int IDim = 0; IDim < NDims; ++IDim) Dimensions[IDim] = DimNames[IDim];\<close>
  Neither \<open>operator[]\<close> checks its index; an index at or past the size of the vector it
  is applied to is undefined behaviour, first for the read of \<open>DimNames\<close>.
\<close>

function getDimNames_loop ::
  "int \<Rightarrow> int \<Rightarrow> string list \<Rightarrow> string list \<Rightarrow> abnormal + string list" where
  "getDimNames_loop IDim NDims' DimNames' Dimensions =
     (if IDim < NDims' then
        if \<not> (0 \<le> IDim \<and> nat IDim < length DimNames') then Inl UB_vector_index
        else if \<not> nat IDim < length Dimensions then Inl UB_vector_index
        else getDimNames_loop (IDim + 1) NDims' DimNames'
               (Dimensions[nat IDim := DimNames' ! nat IDim])
      else Inr Dimensions)"
  by pat_completeness auto
termination
  by (relation "measure (\<lambda>(IDim, NDims', DimNames', Dimensions). nat (NDims' - IDim))") auto

text \<open>
  \<open>getDimNames(Dimensions)\<close>: the result is the status and the new content of the
  caller's vector.
\<close>

definition getDimNames ::
  "addr \<Rightarrow> string list \<Rightarrow> globals \<Rightarrow> abnormal + (int \<times> string list)" where
  "getDimNames this Dimensions s =
     (if NDims (DataStore s this) > 0 then
        (case getDimNames_loop 0 (NDims (DataStore s this)) (DimNames (DataStore s this))
                (vector_resize (nat (NDims (DataStore s this))) Dimensions) of
           Inl e \<Rightarrow> Inl e
         | Inr Dimensions' \<Rightarrow> Inr (0, Dimensions'))
      else Inr (0, []))"

text \<open>
  \<open>MetaMap[Name]\<close> is read only where \<open>hasEntry(Name)\<close> holds; for a missing key
  \<open>operator[]\<close> would yield a fresh empty \<open>std::any\<close>.
\<close>

definition MetaMap_at :: "(string, std_any) fmap \<Rightarrow> string \<Rightarrow> std_any" where
  "MetaMap_at m Name = (case fmlookup m Name of Some v \<Rightarrow> v | None \<Rightarrow> AnyEmpty)"

text \<open>
  The six overloads of \<open>getEntry(Name, Value)\<close>. \<open>Value\<close> is the caller's variable: the
  result carries the status, the content of that variable after the call, and the state.
\<close>

definition getEntry_I4 ::
  "addr \<Rightarrow> string \<Rightarrow> I4 \<Rightarrow> globals \<Rightarrow> abnormal + (int \<times> I4 \<times> globals)" where
  "getEntry_I4 this Name Value s =
     (if \<not> hasEntry this Name s
      then Inr (- 1, Value, LOG_ERROR (EntryNotFound Name (FieldName (DataStore s this))) s)
      else (case any_cast_I4 (MetaMap_at (MetaMap (DataStore s this)) Name) of
              Inl e \<Rightarrow> Inl e
            | Inr v \<Rightarrow> Inr (0, v, s)))"

definition getEntry_I8 ::
  "addr \<Rightarrow> string \<Rightarrow> I8 \<Rightarrow> globals \<Rightarrow> abnormal + (int \<times> I8 \<times> globals)" where
  "getEntry_I8 this Name Value s =
     (if \<not> hasEntry this Name s
      then Inr (- 1, Value, LOG_ERROR (EntryNotFound Name (FieldName (DataStore s this))) s)
      else (case any_cast_I8 (MetaMap_at (MetaMap (DataStore s this)) Name) of
              Inl e \<Rightarrow> Inl e
            | Inr v \<Rightarrow> Inr (0, v, s)))"

definition getEntry_R4 ::
  "addr \<Rightarrow> string \<Rightarrow> R4 \<Rightarrow> globals \<Rightarrow> abnormal + (int \<times> R4 \<times> globals)" where
  "getEntry_R4 this Name Value s =
     (if \<not> hasEntry this Name s
      then Inr (- 1, Value, LOG_ERROR (EntryNotFound Name (FieldName (DataStore s this))) s)
      else (case any_cast_R4 (MetaMap_at (MetaMap (DataStore s this)) Name) of
              Inl e \<Rightarrow> Inl e
            | Inr v \<Rightarrow> Inr (0, v, s)))"

definition getEntry_R8 ::
  "addr \<Rightarrow> string \<Rightarrow> R8 \<Rightarrow> globals \<Rightarrow> abnormal + (int \<times> R8 \<times> globals)" where
  "getEntry_R8 this Name Value s =
     (if \<not> hasEntry this Name s
      then Inr (- 1, Value, LOG_ERROR (EntryNotFound Name (FieldName (DataStore s this))) s)
      else (case any_cast_R8 (MetaMap_at (MetaMap (DataStore s this)) Name) of
              Inl e \<Rightarrow> Inl e
            | Inr v \<Rightarrow> Inr (0, v, s)))"

definition getEntry_bool ::
  "addr \<Rightarrow> string \<Rightarrow> bool \<Rightarrow> globals \<Rightarrow> abnormal + (int \<times> bool \<times> globals)" where
  "getEntry_bool this Name Value s =
     (if \<not> hasEntry this Name s
      then Inr (- 1, Value, LOG_ERROR (EntryNotFound Name (FieldName (DataStore s this))) s)
      else (case any_cast_bool (MetaMap_at (MetaMap (DataStore s this)) Name) of
              Inl e \<Rightarrow> Inl e
            | Inr v \<Rightarrow> Inr (0, v, s)))"

definition getEntry_string ::
  "addr \<Rightarrow> string \<Rightarrow> string \<Rightarrow> globals \<Rightarrow> abnormal + (int \<times> string \<times> globals)" where
  "getEntry_string this Name Value s =
     (if \<not> hasEntry this Name s
      then Inr (- 1, Value, LOG_ERROR (EntryNotFound Name (FieldName (DataStore s this))) s)
      else (case any_cast_string (MetaMap_at (MetaMap (DataStore s this)) Name) of
              Inl e \<Rightarrow> Inl e
            | Inr v \<Rightarrow> Inr (0, v, s)))"

subsection \<open>MetaDim: the dimension registry\<close>

definition MetaDim_has :: "string \<Rightarrow> globals \<Rightarrow> bool" where
  "MetaDim_has Name s = (Name |\<in>| fmdom (AllDims s))"

definition MetaDim_get :: "string \<Rightarrow> globals \<Rightarrow> addr option \<times> globals" where
  "MetaDim_get Name s =
     (if \<not> MetaDim_has Name s then (None, LOG_ERROR (DimGetNotFound Name) s)
      else (fmlookup (AllDims s) Name, s))"

text \<open>
  \<open>MetaDim::create\<close> allocates a dimension object before it looks the name up. For a
  known name the pointer to that object is overwritten with the result of \<open>get\<close>, whose
  \<open>Length\<close> is read through \<open>operator->\<close>.
\<close>

definition MetaDim_create ::
  "string \<Rightarrow> I4 \<Rightarrow> globals \<Rightarrow> abnormal + (addr option \<times> globals)" where
  "MetaDim_create Name Length' s =
     (let (Dim, s1) = make_shared_MetaDim s in
      if MetaDim_has Name s1 then
        (case MetaDim_get Name s1 of
           (None, s2) \<Rightarrow> Inl UB_null_dereference
         | (Some Dim', s2) \<Rightarrow>
             if Length (DimStore s2 Dim') \<noteq> Length'
             then Inr (None, LOG_ERROR (DimLengthConflict Name) s2)
             else Inr (Some Dim', s2))
      else
        let s2 = s1\<lparr>DimStore := (DimStore s1)(Dim :=
                    (DimStore s1 Dim)\<lparr>DimName := Name, Length := Length'\<rparr>)\<rparr>;
            s3 = s2\<lparr>AllDims := fmupd Name Dim (AllDims s2)\<rparr>
        in Inr (Some Dim, s3))"

definition MetaDim_destroy :: "string \<Rightarrow> globals \<Rightarrow> int \<times> globals" where
  "MetaDim_destroy Name s =
     (if \<not> MetaDim_has Name s then (- 1, LOG_ERROR (DimDestroyNotFound Name) s)
      else
        let (n, m) = map_erase Name (AllDims s);
            s1 = s\<lparr>AllDims := m\<rparr>
        in if n \<noteq> 1 then (- 1, LOG_ERROR (DimEraseUnknown Name) s1) else (0, s1))"

definition MetaDim_clear :: "globals \<Rightarrow> globals" where
  "MetaDim_clear s = s\<lparr>AllDims := fmempty\<rparr>"

definition getLength :: "addr \<Rightarrow> globals \<Rightarrow> I4" where
  "getLength this s = Length (DimStore s this)"

text \<open>
  \<open>getDimLength(Name)\<close> reads \<open>AllDims[Name]\<close> under \<open>has(Name)\<close> and follows the
  pointer; for an unknown name it reports and returns -1.
\<close>

definition getDimLength :: "string \<Rightarrow> globals \<Rightarrow> abnormal + (I4 \<times> globals)" where
  "getDimLength Name s =
     (if MetaDim_has Name s then
        (case fmlookup (AllDims s) Name of
           None \<Rightarrow> Inl UB_null_dereference
         | Some ThisDim \<Rightarrow> Inr (Length (DimStore s ThisDim), s))
      else Inr (- 1, LOG_ERROR (DimLengthNotFound Name) s))"

text \<open>\<open>getNumDefinedDims\<close> returns \<open>AllDims.size()\<close> as an \<open>int\<close>.\<close>

definition getNumDefinedDims :: "globals \<Rightarrow> int" where
  "getNumDefinedDims s = int (fcard (fmdom (AllDims s)))"

subsection \<open>MetaGroup: the group registry and its groups\<close>

definition MetaGroup_has :: "string \<Rightarrow> globals \<Rightarrow> bool" where
  "MetaGroup_has Name s = (Name |\<in>| fmdom (AllGroups s))"

definition MetaGroup_create :: "string \<Rightarrow> globals \<Rightarrow> addr option \<times> globals" where
  "MetaGroup_create Name s =
     (if MetaGroup_has Name s then (None, LOG_ERROR (GroupAlreadyExists Name) s)
      else
        let (Group, s1) = make_shared_MetaGroup s;
            s2 = s1\<lparr>GroupStore := (GroupStore s1)(Group := (GroupStore s1 Group)\<lparr>GrpName := Name\<rparr>)\<rparr>;
            s3 = s2\<lparr>AllGroups := fmupd Name Group (AllGroups s2)\<rparr>
        in (Some Group, s3))"

definition MetaGroup_destroy :: "string \<Rightarrow> globals \<Rightarrow> int \<times> globals" where
  "MetaGroup_destroy Name s =
     (if \<not> MetaGroup_has Name s then (- 1, LOG_ERROR (GroupDestroyNotFound Name) s)
      else
        let (n, m) = map_erase Name (AllGroups s);
            s1 = s\<lparr>AllGroups := m\<rparr>
        in if n \<noteq> 1 then (- 2, LOG_ERROR (GroupEraseUnknown Name) s1) else (0, s1))"

definition MetaGroup_get :: "string \<Rightarrow> globals \<Rightarrow> addr option \<times> globals" where
  "MetaGroup_get Name s =
     (if \<not> MetaGroup_has Name s then (None, LOG_ERROR (GroupGetNotFound Name) s)
      else (fmlookup (AllGroups s) Name, s))"

definition hasField :: "addr \<Rightarrow> string \<Rightarrow> globals \<Rightarrow> bool" where
  "hasField this FieldName' s = (FieldName' |\<in>| Fields (GroupStore s this))"

text \<open>
  \<open>addField\<close> sets its status when the field is not registered and then goes on to the
  insertion, which is outside the \<open>if\<close>.
\<close>

definition addField :: "addr \<Rightarrow> string \<Rightarrow> globals \<Rightarrow> int \<times> globals" where
  "addField this FieldName' s =
     (let (RetVal, s1) =
            (if \<not> MetaData_has FieldName' s
             then (- 2, LOG_ERROR (FieldNotDefined FieldName' (GrpName (GroupStore s this))) s)
             else (0, s));
          s2 = s1\<lparr>GroupStore := (GroupStore s1)(this :=
                  (GroupStore s1 this)\<lparr>Fields := finsert FieldName' (Fields (GroupStore s1 this))\<rparr>)\<rparr>
      in (RetVal, s2))"

definition getField :: "addr \<Rightarrow> string \<Rightarrow> globals \<Rightarrow> addr option \<times> globals" where
  "getField this FieldName' s =
     (if \<not> hasField this FieldName' s
      then (None, LOG_ERROR (FieldNotInGroup FieldName' (GrpName (GroupStore s this))) s)
      else MetaData_get FieldName' s)"

definition removeField :: "addr \<Rightarrow> string \<Rightarrow> globals \<Rightarrow> int \<times> globals" where
  "removeField this FieldName' s =
     (if \<not> hasField this FieldName' s
      then (- 1, LOG_ERROR (FieldRemoveNotInGroup FieldName' (GrpName (GroupStore s this))) s)
      else
        let (n, A) = set_erase FieldName' (Fields (GroupStore s this));
            s1 = s\<lparr>GroupStore := (GroupStore s)(this := (GroupStore s this)\<lparr>Fields := A\<rparr>)\<rparr>
        in if n \<noteq> 1
           then (- 2, LOG_ERROR (FieldEraseFromGroupUnknown FieldName' (GrpName (GroupStore s1 this))) s1)
           else (0, s1))"

subsection \<open>Well-formed states\<close>

text \<open>
  Every pointer kept in a registry was returned by an allocation, so it lies below the
  next free address.
\<close>

definition allocated :: "globals \<Rightarrow> bool" where
  "allocated s =
     ((\<forall>n a. fmlookup (AllFields s) n = Some a \<longrightarrow> a < NextAddr s) \<and>
      (\<forall>n a. fmlookup (AllDims s) n = Some a \<longrightarrow> a < NextAddr s) \<and>
      (\<forall>n a. fmlookup (AllGroups s) n = Some a \<longrightarrow> a < NextAddr s))"

section \<open>Basic facts\<close>

lemma LOG_ERROR_simps:
  "AllFields (LOG_ERROR d s) = AllFields s"
  "AllDims (LOG_ERROR d s) = AllDims s"
  "AllGroups (LOG_ERROR d s) = AllGroups s"
  "DataStore (LOG_ERROR d s) = DataStore s"
  "DimStore (LOG_ERROR d s) = DimStore s"
  "GroupStore (LOG_ERROR d s) = GroupStore s"
  "NextAddr (LOG_ERROR d s) = NextAddr s"
  "ErrorLog (LOG_ERROR d s) = ErrorLog s @ [d]"
  by (simp_all add: LOG_ERROR_def)

lemma addEntry_fresh:
  "\<not> hasEntry this Name s \<Longrightarrow>
   addEntry this Name v s =
     (0, s\<lparr>DataStore := (DataStore s)(this :=
            (DataStore s this)\<lparr>MetaMap := fmupd Name v (MetaMap (DataStore s this))\<rparr>)\<rparr>)"
  by (simp add: addEntry_def)

lemma addEntry_present:
  "hasEntry this Name s \<Longrightarrow>
   addEntry this Name v s =
     (- 1, LOG_ERROR (EntryAlreadyExists Name (FieldName (DataStore s this))) s)"
  by (simp add: addEntry_def)

lemma addEntry_ok_iff: "fst (addEntry this Name v s) = 0 \<longleftrightarrow> \<not> hasEntry this Name s"
  by (simp add: addEntry_def)

lemma addEntry_ok_stored:
  assumes "addEntry this Name v s = (0, s1)"
  shows "hasEntry this Name s1" and "MetaMap_at (MetaMap (DataStore s1 this)) Name = v"
proof -
  from assms have fresh: "\<not> hasEntry this Name s"
    using addEntry_ok_iff [of this Name v s] by simp
  from assms have s1: "s1 = s\<lparr>DataStore := (DataStore s)(this :=
            (DataStore s this)\<lparr>MetaMap := fmupd Name v (MetaMap (DataStore s this))\<rparr>)\<rparr>"
    by (simp add: addEntry_fresh [OF fresh])
  show "hasEntry this Name s1" by (simp add: s1 hasEntry_def)
  show "MetaMap_at (MetaMap (DataStore s1 this)) Name = v" by (simp add: s1 MetaMap_at_def)
qed

lemma create_fresh:
  "\<not> MetaData_has N s \<Longrightarrow>
   MetaData_create N s =
     (Some (NextAddr s),
      s\<lparr>DataStore := (DataStore s)(NextAddr s :=
           \<lparr>FieldName = N, MetaMap = fmempty, NDims = 0, DimNames = []\<rparr>),
        NextAddr := Suc (NextAddr s),
        AllFields := fmupd N (NextAddr s) (AllFields s)\<rparr>)"
  by (simp add: MetaData_create_def make_shared_MetaData_def)

lemma create_known:
  "MetaData_has N s \<Longrightarrow> MetaData_create N s = (None, LOG_ERROR (FieldAlreadyExists N) s)"
  by (simp add: MetaData_create_def)

lemma addEntry_on_new_record:
  "addEntry 0 ''E'' v (snd (MetaData_create ''F'' init_globals)) =
     (0, snd (addEntry 0 ''E'' v (snd (MetaData_create ''F'' init_globals))))"
  by (simp add: MetaData_create_def MetaData_has_def make_shared_MetaData_def init_globals_def
      addEntry_def hasEntry_def)

section \<open>Entries of a record\<close>

text \<open>
  C1 (as amended). Let \<open>addEntry(Name, v)\<close> return 0 on a record. Then each overload of
  \<open>getEntry(Name, ...)\<close> whose type is the exact kind of \<open>v\<close> returns status 0 and the
  value \<open>v\<close> and leaves the state alone. Each overload of any other type does not
  return: \<open>std::any_cast\<close> throws \<open>std::bad_any_cast\<close>. This holds across the integer
  widths and across the floating-point widths, so no value is widened or narrowed. The
  variables \<open>V4\<close>, ..., \<open>S\<close> are what the caller's output variable held before.
\<close>

theorem getEntry_exact_kind:
  assumes "addEntry this Name v s = (0, s1)"
  shows "getEntry_I4 this Name V4 s1 =
           (case v of AnyI4 x \<Rightarrow> Inr (0, x, s1) | _ \<Rightarrow> Inl Throw_bad_any_cast) \<and>
         getEntry_I8 this Name V8 s1 =
           (case v of AnyI8 x \<Rightarrow> Inr (0, x, s1) | _ \<Rightarrow> Inl Throw_bad_any_cast) \<and>
         getEntry_R4 this Name W4 s1 =
           (case v of AnyR4 x \<Rightarrow> Inr (0, x, s1) | _ \<Rightarrow> Inl Throw_bad_any_cast) \<and>
         getEntry_R8 this Name W8 s1 =
           (case v of AnyR8 x \<Rightarrow> Inr (0, x, s1) | _ \<Rightarrow> Inl Throw_bad_any_cast) \<and>
         getEntry_bool this Name B s1 =
           (case v of AnyBool x \<Rightarrow> Inr (0, x, s1) | _ \<Rightarrow> Inl Throw_bad_any_cast) \<and>
         getEntry_string this Name S s1 =
           (case v of AnyString x \<Rightarrow> Inr (0, x, s1) | _ \<Rightarrow> Inl Throw_bad_any_cast)"
proof -
  note st = addEntry_ok_stored [OF assms]
  have "getEntry_I4 this Name V4 s1 =
           (case v of AnyI4 x \<Rightarrow> Inr (0, x, s1) | _ \<Rightarrow> Inl Throw_bad_any_cast)"
    using st by (cases v) (simp_all add: getEntry_I4_def)
  moreover have "getEntry_I8 this Name V8 s1 =
           (case v of AnyI8 x \<Rightarrow> Inr (0, x, s1) | _ \<Rightarrow> Inl Throw_bad_any_cast)"
    using st by (cases v) (simp_all add: getEntry_I8_def)
  moreover have "getEntry_R4 this Name W4 s1 =
           (case v of AnyR4 x \<Rightarrow> Inr (0, x, s1) | _ \<Rightarrow> Inl Throw_bad_any_cast)"
    using st by (cases v) (simp_all add: getEntry_R4_def)
  moreover have "getEntry_R8 this Name W8 s1 =
           (case v of AnyR8 x \<Rightarrow> Inr (0, x, s1) | _ \<Rightarrow> Inl Throw_bad_any_cast)"
    using st by (cases v) (simp_all add: getEntry_R8_def)
  moreover have "getEntry_bool this Name B s1 =
           (case v of AnyBool x \<Rightarrow> Inr (0, x, s1) | _ \<Rightarrow> Inl Throw_bad_any_cast)"
    using st by (cases v) (simp_all add: getEntry_bool_def)
  moreover have "getEntry_string this Name S s1 =
           (case v of AnyString x \<Rightarrow> Inr (0, x, s1) | _ \<Rightarrow> Inl Throw_bad_any_cast)"
    using st by (cases v) (simp_all add: getEntry_string_def)
  ultimately show ?thesis by blast
qed

text \<open>
  The theorem at a new record \<open>F\<close> with the entry \<open>E\<close> added as the \<open>I4\<close> value 1: the
  \<open>I4\<close> overload returns 1, the \<open>R8\<close> overload throws.
\<close>

theorem getEntry_exact_kind_witness:
  "(let s0 = snd (MetaData_create ''F'' init_globals);
        s1 = snd (addEntry 0 ''E'' (AnyI4 1) s0)
    in addEntry 0 ''E'' (AnyI4 1) s0 = (0, s1) \<and>
       getEntry_I4 0 ''E'' 0 s1 = Inr (0, 1, s1) \<and>
       getEntry_R8 0 ''E'' 0 s1 = Inl Throw_bad_any_cast)"
proof -
  note h = addEntry_on_new_record [of "AnyI4 1"]
  from getEntry_exact_kind [OF h, of 0 0 0 0 False "[]"] h show ?thesis
    by (simp add: Let_def)
qed

text \<open>
  C1 as stated fails: after \<open>addEntry("E", 1)\<close> with an \<open>I4\<close> value has returned 0 on a
  new record, \<open>getEntry("E", Value)\<close> with an \<open>I8\<close> variable returns no status at all;
  the exception leaves the function.
\<close>

theorem getEntry_other_kind_throws:
  "fst (addEntry 0 ''E'' (AnyI4 1) (snd (MetaData_create ''F'' init_globals))) = 0 \<and>
   getEntry_I8 0 ''E'' 0
     (snd (addEntry 0 ''E'' (AnyI4 1) (snd (MetaData_create ''F'' init_globals)))) =
     Inl Throw_bad_any_cast"
  by (simp add: MetaData_create_def MetaData_has_def make_shared_MetaData_def init_globals_def
      addEntry_def hasEntry_def getEntry_I8_def MetaMap_at_def)

section \<open>Adding a field to a group\<close>

text \<open>
  C2. For every group object \<open>G\<close> and every field name \<open>F\<close> that is not registered,
  \<open>addField(F)\<close> returns the status -2, reports that the field is not defined, and has
  inserted \<open>F\<close> into the member set all the same, so that \<open>hasField(F)\<close> holds
  afterwards.
\<close>

theorem addField_unregistered_still_inserts:
  assumes "\<not> MetaData_has F s"
  shows "fst (addField G F s) = - 2 \<and>
         ErrorLog (snd (addField G F s)) =
           ErrorLog s @ [FieldNotDefined F (GrpName (GroupStore s G))] \<and>
         Fields (GroupStore (snd (addField G F s)) G) = finsert F (Fields (GroupStore s G)) \<and>
         hasField G F (snd (addField G F s))"
  using assms by (simp add: addField_def hasField_def LOG_ERROR_simps)

text \<open>The theorem at a new group \<open>G\<close> (the object at address 0) and the unknown field \<open>F\<close>.\<close>

theorem addField_unregistered_still_inserts_witness:
  "\<not> MetaData_has ''F'' (snd (MetaGroup_create ''G'' init_globals)) \<and>
   fst (addField 0 ''F'' (snd (MetaGroup_create ''G'' init_globals))) = - 2 \<and>
   hasField 0 ''F'' (snd (addField 0 ''F'' (snd (MetaGroup_create ''G'' init_globals))))"
proof -
  have h: "\<not> MetaData_has ''F'' (snd (MetaGroup_create ''G'' init_globals))"
    by (simp add: MetaData_has_def MetaGroup_create_def MetaGroup_has_def init_globals_def
        make_shared_MetaGroup_def)
  from addField_unregistered_still_inserts [OF h, of 0] h show ?thesis by blast
qed

section \<open>Duplicate entries\<close>

lemma removeEntry_present:
  "hasEntry this Name s \<Longrightarrow>
   removeEntry this Name s =
     (0, s\<lparr>DataStore := (DataStore s)(this :=
            (DataStore s this)\<lparr>MetaMap := fmdrop Name (MetaMap (DataStore s this))\<rparr>)\<rparr>)"
  by (simp add: removeEntry_def map_erase_def hasEntry_def)

lemma getEntry_I4_stored:
  "fmlookup (MetaMap (DataStore s this)) Name = Some (AnyI4 x) \<Longrightarrow>
   getEntry_I4 this Name V s = Inr (0, x, s)"
  by (simp add: getEntry_I4_def hasEntry_def MetaMap_at_def fmdomI)

text \<open>
  C7. On a record without an entry \<open>E\<close>: \<open>addEntry(E, x)\<close> returns 0; a second
  \<open>addEntry(E, y)\<close> returns -1, reports the duplicate and changes nothing else, so that
  \<open>getEntry(E)\<close> still yields \<open>x\<close>; \<open>removeEntry(E)\<close> returns 0; after it
  \<open>addEntry(E, y)\<close> returns 0 and \<open>getEntry(E)\<close> yields \<open>y\<close>. The claim's values 1 and
  2 are \<open>int\<close>s, stored as \<open>I4\<close>; the hypotheses after the first only name the
  results of the calls.
\<close>

theorem duplicate_entry_rejected_then_replaceable:
  assumes fresh: "\<not> hasEntry this E s"
    and add1: "addEntry this E (AnyI4 x) s = (r1, s1)"
    and add2: "addEntry this E (AnyI4 y) s1 = (r2, s2)"
    and rem: "removeEntry this E s2 = (r3, s3)"
    and add3: "addEntry this E (AnyI4 y) s3 = (r4, s4)"
  shows "r1 = 0 \<and>
         r2 = - 1 \<and>
         s2 = LOG_ERROR (EntryAlreadyExists E (FieldName (DataStore s this))) s1 \<and>
         getEntry_I4 this E V s2 = Inr (0, x, s2) \<and>
         r3 = 0 \<and> \<not> hasEntry this E s3 \<and>
         r4 = 0 \<and>
         getEntry_I4 this E V s4 = Inr (0, y, s4)"
proof -
  from add1 fresh have r1: "r1 = 0"
    and s1: "s1 = s\<lparr>DataStore := (DataStore s)(this :=
            (DataStore s this)\<lparr>MetaMap := fmupd E (AnyI4 x) (MetaMap (DataStore s this))\<rparr>)\<rparr>"
    by (simp_all add: addEntry_fresh)
  have h1: "hasEntry this E s1" by (simp add: s1 hasEntry_def)
  have n1: "FieldName (DataStore s1 this) = FieldName (DataStore s this)"
    by (simp add: s1)
  from add2 h1 have r2: "r2 = - 1"
    and s2: "s2 = LOG_ERROR (EntryAlreadyExists E (FieldName (DataStore s this))) s1"
    by (simp_all add: addEntry_present n1)
  have l2: "fmlookup (MetaMap (DataStore s2 this)) E = Some (AnyI4 x)"
    by (simp add: s2 s1 LOG_ERROR_simps)
  have g2: "getEntry_I4 this E V s2 = Inr (0, x, s2)"
    by (rule getEntry_I4_stored [OF l2])
  have h2: "hasEntry this E s2" using l2 by (simp add: hasEntry_def fmdomI)
  from rem h2 have r3: "r3 = 0"
    and s3: "s3 = s2\<lparr>DataStore := (DataStore s2)(this :=
            (DataStore s2 this)\<lparr>MetaMap := fmdrop E (MetaMap (DataStore s2 this))\<rparr>)\<rparr>"
    by (simp_all add: removeEntry_present)
  have h3: "\<not> hasEntry this E s3" by (simp add: s3 hasEntry_def)
  from add3 h3 have r4: "r4 = 0"
    and s4: "s4 = s3\<lparr>DataStore := (DataStore s3)(this :=
            (DataStore s3 this)\<lparr>MetaMap := fmupd E (AnyI4 y) (MetaMap (DataStore s3 this))\<rparr>)\<rparr>"
    by (simp_all add: addEntry_fresh)
  have l4: "fmlookup (MetaMap (DataStore s4 this)) E = Some (AnyI4 y)"
    by (simp add: s4)
  have g4: "getEntry_I4 this E V s4 = Inr (0, y, s4)"
    by (rule getEntry_I4_stored [OF l4])
  from r1 r2 s2 g2 r3 h3 r4 g4 show ?thesis by blast
qed

lemma new_record_no_entry: "\<not> hasEntry 0 e (snd (MetaData_create ''F'' init_globals))"
  by (simp add: MetaData_create_def MetaData_has_def make_shared_MetaData_def init_globals_def
      hasEntry_def)

text \<open>The scenario of C7 on a new record \<open>F\<close>, with the values 1 and 2.\<close>

theorem duplicate_entry_rejected_then_replaceable_witness:
  "(let s = snd (MetaData_create ''F'' init_globals);
        s1 = snd (addEntry 0 ''E'' (AnyI4 1) s);
        s2 = snd (addEntry 0 ''E'' (AnyI4 2) s1);
        s3 = snd (removeEntry 0 ''E'' s2);
        s4 = snd (addEntry 0 ''E'' (AnyI4 2) s3)
    in \<not> hasEntry 0 ''E'' s \<and>
       fst (addEntry 0 ''E'' (AnyI4 1) s) = 0 \<and>
       fst (addEntry 0 ''E'' (AnyI4 2) s1) = - 1 \<and>
       getEntry_I4 0 ''E'' 0 s2 = Inr (0, 1, s2) \<and>
       fst (removeEntry 0 ''E'' s2) = 0 \<and>
       fst (addEntry 0 ''E'' (AnyI4 2) s3) = 0 \<and>
       getEntry_I4 0 ''E'' 0 s4 = Inr (0, 2, s4))"
proof -
  note h = new_record_no_entry [of "''E''"]
  from duplicate_entry_rejected_then_replaceable
    [OF h surjective_pairing surjective_pairing surjective_pairing surjective_pairing, of 1 2 0] h
  show ?thesis
    unfolding Let_def by blast
qed

section \<open>Dimension names of a record\<close>

lemma getDimNames_loop_in_bounds:
  "0 \<le> i \<Longrightarrow> i \<le> n \<Longrightarrow> n \<le> int (length DN) \<Longrightarrow> length D = nat n \<Longrightarrow>
   getDimNames_loop i n DN D = Inr (take (nat i) D @ drop (nat i) (take (nat n) DN))"
proof (induction i n DN D rule: getDimNames_loop.induct)
  case (1 IDim NDims' DimNames' Dimensions)
  show ?case
  proof (cases "IDim < NDims'")
    case False
    with "1.prems" have "IDim = NDims'" by simp
    with "1.prems" show ?thesis by simp
  next
    case True
    with "1.prems" have rd: "nat IDim < length DimNames'" and wr: "nat IDim < length Dimensions"
      by simp_all
    have step: "getDimNames_loop IDim NDims' DimNames' Dimensions =
          getDimNames_loop (IDim + 1) NDims' DimNames'
            (Dimensions[nat IDim := DimNames' ! nat IDim])"
      using True rd wr "1.prems"(1) by simp
    have ih: "getDimNames_loop (IDim + 1) NDims' DimNames'
            (Dimensions[nat IDim := DimNames' ! nat IDim]) =
          Inr (take (nat (IDim + 1)) (Dimensions[nat IDim := DimNames' ! nat IDim]) @
               drop (nat (IDim + 1)) (take (nat NDims') DimNames'))"
      using True rd wr "1.prems" by (intro "1.IH") simp_all
    have suc: "nat (IDim + 1) = Suc (nat IDim)" using "1.prems"(1) by simp
    have lt: "nat IDim < length (take (nat NDims') DimNames')"
      using True rd "1.prems"(1) by simp
    have "take (Suc (nat IDim)) (Dimensions[nat IDim := DimNames' ! nat IDim]) =
          take (nat IDim) Dimensions @ [DimNames' ! nat IDim]"
      using wr by (simp add: take_Suc_conv_app_nth)
    moreover have "drop (nat IDim) (take (nat NDims') DimNames') =
          DimNames' ! nat IDim # drop (Suc (nat IDim)) (take (nat NDims') DimNames')"
      using lt True "1.prems"(1) by (simp add: Cons_nth_drop_Suc [symmetric])
    ultimately show ?thesis by (simp add: step ih suc del: getDimNames_loop.simps)
  qed
qed

lemma getDimNames_loop_overrun:
  "0 \<le> i \<Longrightarrow> i < n \<Longrightarrow> i \<le> int (length DN) \<Longrightarrow> int (length DN) < n \<Longrightarrow> length D = nat n \<Longrightarrow>
   getDimNames_loop i n DN D = Inl UB_vector_index"
proof (induction i n DN D rule: getDimNames_loop.induct)
  case (1 IDim NDims' DimNames' Dimensions)
  show ?case
  proof (cases "nat IDim < length DimNames'")
    case False
    with "1.prems" show ?thesis by simp
  next
    case True
    with "1.prems" have wr: "nat IDim < length Dimensions" by simp
    have step: "getDimNames_loop IDim NDims' DimNames' Dimensions =
          getDimNames_loop (IDim + 1) NDims' DimNames'
            (Dimensions[nat IDim := DimNames' ! nat IDim])"
      using True wr "1.prems" by simp
    have "getDimNames_loop (IDim + 1) NDims' DimNames'
            (Dimensions[nat IDim := DimNames' ! nat IDim]) = Inl UB_vector_index"
      using True wr "1.prems" by (intro "1.IH") simp_all
    then show ?thesis by (simp add: step del: getDimNames_loop.simps)
  qed
qed

lemma getDimNames_eq:
  "getDimNames this D s =
     (if NDims (DataStore s this) \<le> 0 then Inr (0, [])
      else if NDims (DataStore s this) \<le> int (length (DimNames (DataStore s this)))
      then Inr (0, take (nat (NDims (DataStore s this))) (DimNames (DataStore s this)))
      else Inl UB_vector_index)"
proof -
  let ?n = "NDims (DataStore s this)" and ?DN = "DimNames (DataStore s this)"
  have len: "length (vector_resize (nat ?n) D) = nat ?n"
    by (simp add: vector_resize_def)
  show ?thesis
  proof (cases "?n \<le> 0")
    case True
    then show ?thesis by (simp add: getDimNames_def)
  next
    case pos: False
    show ?thesis
    proof (cases "?n \<le> int (length ?DN)")
      case True
      from getDimNames_loop_in_bounds [of 0 ?n ?DN, OF _ _ True len] pos
      show ?thesis using True by (simp add: getDimNames_def del: getDimNames_loop.simps)
    next
      case False
      from getDimNames_loop_overrun [of 0 ?n ?DN, OF _ _ _ _ len] pos False
      show ?thesis by (simp add: getDimNames_def del: getDimNames_loop.simps)
    qed
  qed
qed


lemma addEntry_frame:
  "NDims (DataStore (snd (addEntry this n v s)) a) = NDims (DataStore s a)"
  "DimNames (DataStore (snd (addEntry this n v s)) a) = DimNames (DataStore s a)"
  "FieldName (DataStore (snd (addEntry this n v s)) a) = FieldName (DataStore s a)"
  "AllFields (snd (addEntry this n v s)) = AllFields s"
  by (simp_all add: addEntry_def LOG_ERROR_simps)

lemma create_full_fresh:
  assumes "\<not> MetaData_has Name s"
  shows "fst (MetaData_create_full Name Dsc Uts Std mn mx fv NumDims Dimensions s) =
           Some (NextAddr s)"
    and "NDims (DataStore (snd (MetaData_create_full Name Dsc Uts Std mn mx fv NumDims Dimensions s))
           (NextAddr s)) = NumDims"
    and "DimNames (DataStore (snd (MetaData_create_full Name Dsc Uts Std mn mx fv NumDims Dimensions s))
           (NextAddr s)) = Dimensions"
    and "fmlookup (AllFields (snd (MetaData_create_full Name Dsc Uts Std mn mx fv NumDims Dimensions s)))
           Name = Some (NextAddr s)"
  using assms
  by (simp_all add: MetaData_create_full_def create_fresh Let_def addEntry_frame)

text \<open>
  C9. The full form of \<open>create\<close> stores \<open>NumDims\<close> and \<open>Dimensions\<close> as they come, with
  no comparison of the two: for a new name the record holds exactly the arguments,
  whatever they are. \<open>getDimNames\<close> on any record reads \<open>DimNames[0 .. NDims-1]\<close>: it
  runs into an out-of-bounds index exactly when \<open>NDims\<close> exceeds the size of
  \<open>DimNames\<close>, and otherwise returns status 0 with the first \<open>NDims\<close> names (none when
  \<open>NDims\<close> is not positive). So a record created with \<open>NumDims\<close> greater than the length of
  \<open>Dimensions\<close> makes \<open>getDimNames\<close> read out of bounds.
\<close>

theorem getDimNames_bounds_unchecked:
  assumes "\<not> MetaData_has Name s"
    and "MetaData_create_full Name Dsc Uts Std mn mx fv NumDims Dimensions s = (r, s1)"
  shows "r = Some (NextAddr s) \<and>
         NDims (DataStore s1 (NextAddr s)) = NumDims \<and>
         DimNames (DataStore s1 (NextAddr s)) = Dimensions \<and>
         getDimNames (NextAddr s) D s1 =
           (if NumDims \<le> 0 then Inr (0, [])
            else if NumDims \<le> int (length Dimensions) then Inr (0, take (nat NumDims) Dimensions)
            else Inl UB_vector_index) \<and>
         (getDimNames this D' s' = Inl UB_vector_index \<longleftrightarrow>
            int (length (DimNames (DataStore s' this))) < NDims (DataStore s' this))"
proof -
  note cf = create_full_fresh [OF assms(1), of Dsc Uts Std mn mx fv NumDims Dimensions]
  from cf(1) assms(2) have r: "r = Some (NextAddr s)" by simp
  from cf(2) assms(2) have n: "NDims (DataStore s1 (NextAddr s)) = NumDims" by simp
  from cf(3) assms(2) have d: "DimNames (DataStore s1 (NextAddr s)) = Dimensions" by simp
  have g: "getDimNames (NextAddr s) D s1 =
           (if NumDims \<le> 0 then Inr (0, [])
            else if NumDims \<le> int (length Dimensions) then Inr (0, take (nat NumDims) Dimensions)
            else Inl UB_vector_index)"
    by (simp add: getDimNames_eq n d)
  have u: "getDimNames this D' s' = Inl UB_vector_index \<longleftrightarrow>
            int (length (DimNames (DataStore s' this))) < NDims (DataStore s' this)"
    by (auto simp add: getDimNames_eq)
  from r n d g u show ?thesis by blast
qed

lemma init_no_field: "\<not> MetaData_has N init_globals"
  by (simp add: MetaData_has_def init_globals_def)

text \<open>
  A record created with \<open>NumDims = 2\<close> and the single dimension name \<open>NCells\<close>: the second
  read of \<open>getDimNames\<close> is out of bounds.
\<close>

theorem getDimNames_bounds_unchecked_witness:
  "(let c = MetaData_create_full ''T'' ''d'' ''u'' ''n'' (AnyR8 0) (AnyR8 1) (AnyR8 2) 2
              [''NCells''] init_globals
    in \<not> MetaData_has ''T'' init_globals \<and> fst c = Some 0 \<and>
       NDims (DataStore (snd c) 0) = 2 \<and> DimNames (DataStore (snd c) 0) = [''NCells''] \<and>
       getDimNames 0 [] (snd c) = Inl UB_vector_index)"
proof -
  have n0: "NextAddr init_globals = 0" by (simp add: init_globals_def)
  from getDimNames_bounds_unchecked [OF init_no_field surjective_pairing,
      of "''T''" "''d''" "''u''" "''n''" "AnyR8 0" "AnyR8 1" "AnyR8 2" 2 "[''NCells'']" "[]"]
    init_no_field [of "''T''"]
  show ?thesis unfolding Let_def n0 by simp
qed

section \<open>A newly created record\<close>

text \<open>
  C10. For a name that is not registered, the bare \<open>create(Name)\<close> returns a new record
  whose \<open>getNumDims()\<close> is 0, whose list of dimension names is empty (and
  \<open>getDimNames\<close> returns status 0 with an empty vector), and which has no entry; an entry
  appears only with an \<open>addEntry\<close>, which then returns 0.
\<close>

theorem bare_create_value_initialised:
  assumes "\<not> MetaData_has Name s"
    and "MetaData_create Name s = (r, s1)"
  shows "r = Some (NextAddr s) \<and>
         MetaData_get Name s1 = (Some (NextAddr s), s1) \<and>
         FieldName (DataStore s1 (NextAddr s)) = Name \<and>
         getNumDims (NextAddr s) s1 = 0 \<and>
         DimNames (DataStore s1 (NextAddr s)) = [] \<and>
         getDimNames (NextAddr s) D s1 = Inr (0, []) \<and>
         (\<forall>e. \<not> hasEntry (NextAddr s) e s1) \<and>
         (\<forall>e v. fst (addEntry (NextAddr s) e v s1) = 0 \<and>
                hasEntry (NextAddr s) e (snd (addEntry (NextAddr s) e v s1)))"
proof -
  from assms have r: "r = Some (NextAddr s)"
    and s1: "s1 = s\<lparr>DataStore := (DataStore s)(NextAddr s :=
           \<lparr>FieldName = Name, MetaMap = fmempty, NDims = 0, DimNames = []\<rparr>),
        NextAddr := Suc (NextAddr s),
        AllFields := fmupd Name (NextAddr s) (AllFields s)\<rparr>"
    by (simp_all add: create_fresh)
  have g: "MetaData_get Name s1 = (Some (NextAddr s), s1)"
    by (simp add: s1 MetaData_get_def MetaData_has_def)
  have f: "FieldName (DataStore s1 (NextAddr s)) = Name" by (simp add: s1)
  have n: "getNumDims (NextAddr s) s1 = 0" by (simp add: s1 getNumDims_def)
  have d: "DimNames (DataStore s1 (NextAddr s)) = []" by (simp add: s1)
  have gd: "getDimNames (NextAddr s) D s1 = Inr (0, [])"
    by (simp add: getDimNames_eq s1)
  have e: "\<forall>e. \<not> hasEntry (NextAddr s) e s1" by (simp add: s1 hasEntry_def)
  have a: "\<forall>e v. fst (addEntry (NextAddr s) e v s1) = 0 \<and>
                hasEntry (NextAddr s) e (snd (addEntry (NextAddr s) e v s1))"
    using e by (simp add: addEntry_fresh hasEntry_def)
  from r g f n d gd e a show ?thesis by blast
qed

text \<open>The first record of a run, created under the name \<open>code\<close>.\<close>

theorem bare_create_value_initialised_witness:
  "(let c = MetaData_create ''code'' init_globals
    in \<not> MetaData_has ''code'' init_globals \<and> fst c = Some 0 \<and>
       getNumDims 0 (snd c) = 0 \<and> getDimNames 0 [''x''] (snd c) = Inr (0, []) \<and>
       \<not> hasEntry 0 ''Units'' (snd c))"
proof -
  have n0: "NextAddr init_globals = 0" by (simp add: init_globals_def)
  from bare_create_value_initialised [OF init_no_field surjective_pairing,
      of "''code''" "[''x'']"]
    init_no_field [of "''code''"]
  show ?thesis unfolding Let_def n0 by blast
qed

section \<open>Uniqueness of field names\<close>

lemma create_registers: "MetaData_has F (snd (MetaData_create F s))"
  by (cases "MetaData_has F s")
     (simp_all add: create_fresh create_known MetaData_has_def LOG_ERROR_simps)

lemma MetaData_get_known:
  "fmlookup (AllFields s) F = Some a \<Longrightarrow> MetaData_get F s = (Some a, s)"
  by (simp add: MetaData_get_def MetaData_has_def fmdomI)

lemma MetaData_has_lookup: "MetaData_has F s \<Longrightarrow> \<exists>a. fmlookup (AllFields s) F = Some a"
  by (auto simp add: MetaData_has_def elim: fmdomE)

text \<open>
  C6. After \<open>create(F)\<close>, a second creation under the same name in any of the three
  forms returns the null pointer and reports that \<open>F\<close> already exists (the two long
  forms add their own report); the only change of state is the error log. So the record
  that \<open>get(F)\<close> returned before the second call is what it returns afterwards, with
  the same content, and it is the record the first call returned when that call
  created one.
\<close>

theorem duplicate_field_create_rejected:
  assumes first: "MetaData_create F s = (r1, s1)"
    and bare: "MetaData_create F s1 = (r2, s2)"
    and full: "MetaData_create_full F Dsc Uts Std mn mx fv NumDims Dimensions s1 = (r3, s3)"
    and pairs: "MetaData_create_pairs F MetaPairs s1 = (r4, s4)"
  shows "r2 = None \<and> r3 = None \<and> r4 = None \<and>
         s2 = LOG_ERROR (FieldAlreadyExists F) s1 \<and>
         s3 = LOG_ERROR (FieldCreateFailed F) (LOG_ERROR (FieldAlreadyExists F) s1) \<and>
         s4 = LOG_ERROR (FieldCreateFailed F) (LOG_ERROR (FieldAlreadyExists F) s1) \<and>
         (\<exists>a. MetaData_get F s1 = (Some a, s1) \<and>
              (\<not> MetaData_has F s \<longrightarrow> r1 = Some a) \<and>
              (\<forall>s' \<in> {s2, s3, s4}.
                 MetaData_get F s' = (Some a, s') \<and>
                 DataStore s' = DataStore s1 \<and> AllFields s' = AllFields s1))"
proof -
  from first have known: "MetaData_has F s1"
    using create_registers [of F s] by simp
  from bare known have r2: "r2 = None" and s2: "s2 = LOG_ERROR (FieldAlreadyExists F) s1"
    by (simp_all add: create_known)
  from full known have r3: "r3 = None"
    and s3: "s3 = LOG_ERROR (FieldCreateFailed F) (LOG_ERROR (FieldAlreadyExists F) s1)"
    by (simp_all add: MetaData_create_full_def create_known)
  from pairs known have r4: "r4 = None"
    and s4: "s4 = LOG_ERROR (FieldCreateFailed F) (LOG_ERROR (FieldAlreadyExists F) s1)"
    by (simp_all add: MetaData_create_pairs_def create_known)
  from MetaData_has_lookup [OF known] obtain a where a: "fmlookup (AllFields s1) F = Some a" ..
  have g1: "MetaData_get F s1 = (Some a, s1)" by (rule MetaData_get_known [OF a])
  have new: "\<not> MetaData_has F s \<longrightarrow> r1 = Some a"
  proof
    assume "\<not> MetaData_has F s"
    from create_fresh [OF this] first a show "r1 = Some a" by auto
  qed
  have after: "MetaData_get F s' = (Some a, s') \<and>
                 DataStore s' = DataStore s1 \<and> AllFields s' = AllFields s1"
    if "s' \<in> {s2, s3, s4}" for s'
  proof -
    from that s2 s3 s4 have eq: "DataStore s' = DataStore s1" "AllFields s' = AllFields s1"
      by (auto simp add: LOG_ERROR_simps)
    from a eq(2) have "fmlookup (AllFields s') F = Some a" by simp
    from MetaData_get_known [OF this] eq show ?thesis by simp
  qed
  from r2 r3 r4 s2 s3 s4 g1 new after show ?thesis by blast
qed

text \<open>
  The name \<open>F\<close> created at program start and then created again in each form; the record
  at address 0 stays what \<open>get\<close> returns.
\<close>

theorem duplicate_field_create_rejected_witness:
  "(let s1 = snd (MetaData_create ''F'' init_globals);
        c2 = MetaData_create ''F'' s1;
        c3 = MetaData_create_full ''F'' ''d'' ''u'' ''n'' (AnyI4 0) (AnyI4 9) (AnyI4 0) 0 [] s1;
        c4 = MetaData_create_pairs ''F'' [(''Meta1'', AnyI4 1)] s1
    in fst (MetaData_create ''F'' init_globals) = Some 0 \<and>
       fst c2 = None \<and> fst c3 = None \<and> fst c4 = None \<and>
       fst (MetaData_get ''F'' (snd c2)) = Some 0 \<and>
       fst (MetaData_get ''F'' (snd c3)) = Some 0 \<and>
       fst (MetaData_get ''F'' (snd c4)) = Some 0)"
proof -
  have c1: "fst (MetaData_create ''F'' init_globals) = Some 0"
    and nf: "\<not> MetaData_has ''F'' init_globals"
    by (simp_all add: MetaData_create_def MetaData_has_def make_shared_MetaData_def
        init_globals_def)
  from duplicate_field_create_rejected
    [OF surjective_pairing surjective_pairing surjective_pairing surjective_pairing,
      of "''F''" init_globals "''d''" "''u''" "''n''" "AnyI4 0" "AnyI4 9" "AnyI4 0" 0 "[]"
        "[(''Meta1'', AnyI4 1)]"]
    c1 nf
  show ?thesis unfolding Let_def by auto
qed

section \<open>The dimension registry\<close>

lemma allocated_init: "allocated init_globals"
  by (simp add: allocated_def init_globals_def)

lemma allocated_LOG_ERROR: "allocated (LOG_ERROR d s) = allocated s"
  by (simp add: allocated_def LOG_ERROR_simps)

lemma make_shared_MetaDim_simps:
  "fst (make_shared_MetaDim s) = NextAddr s"
  "AllDims (snd (make_shared_MetaDim s)) = AllDims s"
  "AllFields (snd (make_shared_MetaDim s)) = AllFields s"
  "AllGroups (snd (make_shared_MetaDim s)) = AllGroups s"
  "DataStore (snd (make_shared_MetaDim s)) = DataStore s"
  "GroupStore (snd (make_shared_MetaDim s)) = GroupStore s"
  "ErrorLog (snd (make_shared_MetaDim s)) = ErrorLog s"
  "NextAddr (snd (make_shared_MetaDim s)) = Suc (NextAddr s)"
  "a \<noteq> NextAddr s \<Longrightarrow> DimStore (snd (make_shared_MetaDim s)) a = DimStore s a"
  by (simp_all add: make_shared_MetaDim_def)

lemma allocated_make_shared_MetaDim: "allocated s \<Longrightarrow> allocated (snd (make_shared_MetaDim s))"
  by (auto simp add: allocated_def make_shared_MetaDim_simps less_Suc_eq)

lemma allocatedD:
  "allocated s \<Longrightarrow> fmlookup (AllDims s) n = Some a \<Longrightarrow> a < NextAddr s"
  by (simp add: allocated_def)

lemma MetaDim_get_known:
  "fmlookup (AllDims s) N = Some a \<Longrightarrow> MetaDim_get N s = (Some a, s)"
  by (simp add: MetaDim_get_def MetaDim_has_def fmdomI)

lemma MetaDim_has_lookup: "MetaDim_has N s \<Longrightarrow> \<exists>a. fmlookup (AllDims s) N = Some a"
  by (auto simp add: MetaDim_has_def elim: fmdomE)

lemma MetaDim_create_known:
  assumes "allocated s" and "fmlookup (AllDims s) N = Some a"
  shows "MetaDim_create N L s =
           (if Length (DimStore s a) \<noteq> L
            then Inr (None, LOG_ERROR (DimLengthConflict N) (snd (make_shared_MetaDim s)))
            else Inr (Some a, snd (make_shared_MetaDim s)))"
proof -
  let ?s1 = "snd (make_shared_MetaDim s)"
  from allocatedD [OF assms] have ne: "a \<noteq> NextAddr s" by simp
  have l1: "fmlookup (AllDims ?s1) N = Some a"
    using assms(2) by (simp add: make_shared_MetaDim_simps)
  have h1: "MetaDim_has N ?s1" using l1 by (simp add: MetaDim_has_def fmdomI)
  have len: "Length (DimStore ?s1 a) = Length (DimStore s a)"
    using ne by (simp add: make_shared_MetaDim_simps)
  show ?thesis
    by (simp add: MetaDim_create_def split_beta h1 MetaDim_get_known [OF l1] len)
qed

lemma MetaDim_create_fresh:
  "\<not> MetaDim_has N s \<Longrightarrow>
   MetaDim_create N L s =
     Inr (Some (NextAddr s),
          s\<lparr>DimStore := (DimStore s)(NextAddr s := \<lparr>DimName = N, Length = L\<rparr>),
            NextAddr := Suc (NextAddr s),
            AllDims := fmupd N (NextAddr s) (AllDims s)\<rparr>)"
  by (simp add: MetaDim_create_def make_shared_MetaDim_def MetaDim_has_def)

lemma allocated_MetaDim_create:
  assumes "allocated s" and "MetaDim_create N L s = Inr (r, s')"
  shows "allocated s'"
proof (cases "MetaDim_has N s")
  case False
  from assms(2) have "s' = s\<lparr>DimStore := (DimStore s)(NextAddr s := \<lparr>DimName = N, Length = L\<rparr>),
            NextAddr := Suc (NextAddr s),
            AllDims := fmupd N (NextAddr s) (AllDims s)\<rparr>"
    by (simp add: MetaDim_create_fresh [OF False])
  with assms(1) show ?thesis by (auto simp add: allocated_def less_Suc_eq)
next
  case True
  from MetaDim_has_lookup [OF this] obtain a where a: "fmlookup (AllDims s) N = Some a" ..
  from assms(2) MetaDim_create_known [OF assms(1) a, of L]
  have "s' = LOG_ERROR (DimLengthConflict N) (snd (make_shared_MetaDim s)) \<or>
        s' = snd (make_shared_MetaDim s)"
    by (auto split: if_splits)
  with allocated_make_shared_MetaDim [OF assms(1)] show ?thesis
    by (auto simp add: allocated_LOG_ERROR)
qed

subsection \<open>The invariant is kept\<close>

text \<open>
  Every operation keeps the state well formed, so the states a program can reach from
  \<open>init_globals\<close> are all \<open>allocated\<close>.
\<close>

lemma allocated_frame:
  "AllFields s' = AllFields s \<Longrightarrow> AllDims s' = AllDims s \<Longrightarrow> AllGroups s' = AllGroups s \<Longrightarrow>
   NextAddr s' = NextAddr s \<Longrightarrow> allocated s' = allocated s"
  by (simp add: allocated_def)

lemma allocated_MetaData_create: "allocated s \<Longrightarrow> allocated (snd (MetaData_create N s))"
  by (cases "MetaData_has N s")
     (auto simp add: create_fresh create_known allocated_def LOG_ERROR_simps less_Suc_eq)

lemma allocated_addEntry: "allocated (snd (addEntry this n v s)) = allocated s"
  by (rule allocated_frame) (simp_all add: addEntry_def LOG_ERROR_simps)

lemma allocated_removeEntry: "allocated (snd (removeEntry this n s)) = allocated s"
  by (rule allocated_frame) (simp_all add: removeEntry_def map_erase_def LOG_ERROR_simps)

lemma allocated_addEntries: "allocated (addEntries this ps s) = allocated s"
  by (induction ps arbitrary: s) (simp_all add: allocated_addEntry)

lemma allocated_MetaData_create_full:
  assumes "allocated s"
  shows "allocated (snd (MetaData_create_full N Dsc Uts Std mn mx fv nd ds s))"
proof (cases "MetaData_has N s")
  case True
  with assms show ?thesis
    by (simp add: MetaData_create_full_def create_known allocated_LOG_ERROR)
next
  case False
  let ?s1 = "snd (MetaData_create N s)"
  let ?s2 = "?s1\<lparr>DataStore := (DataStore ?s1)(NextAddr s :=
                      (DataStore ?s1 (NextAddr s))\<lparr>NDims := nd, DimNames := ds\<rparr>)\<rparr>"
  have "allocated ?s2 = allocated ?s1" by (rule allocated_frame) simp_all
  with allocated_MetaData_create [OF assms, of N] have "allocated ?s2" by simp
  then show ?thesis
    using False
    by (simp add: MetaData_create_full_def create_fresh Let_def allocated_addEntry)
qed

lemma allocated_MetaData_create_pairs:
  assumes "allocated s"
  shows "allocated (snd (MetaData_create_pairs N ps s))"
proof (cases "MetaData_has N s")
  case True
  with assms show ?thesis
    by (simp add: MetaData_create_pairs_def create_known allocated_LOG_ERROR)
next
  case False
  let ?s1 = "snd (MetaData_create N s)"
  let ?s2 = "?s1\<lparr>DataStore := (DataStore ?s1)(NextAddr s :=
                      (DataStore ?s1 (NextAddr s))\<lparr>NDims := 0\<rparr>)\<rparr>"
  have "allocated ?s2 = allocated ?s1" by (rule allocated_frame) simp_all
  with allocated_MetaData_create [OF assms, of N] have "allocated ?s2" by simp
  then show ?thesis
    using False
    by (simp add: MetaData_create_pairs_def create_fresh Let_def allocated_addEntries)
qed

lemma allocated_MetaData_destroy: "allocated s \<Longrightarrow> allocated (snd (MetaData_destroy N s))"
  by (auto simp add: MetaData_destroy_def map_erase_def allocated_def LOG_ERROR_simps
      split: if_splits)

lemma allocated_MetaData_clear: "allocated s \<Longrightarrow> allocated (MetaData_clear s)"
  by (simp add: MetaData_clear_def allocated_def)

lemma allocated_MetaDim_destroy: "allocated s \<Longrightarrow> allocated (snd (MetaDim_destroy N s))"
  by (auto simp add: MetaDim_destroy_def map_erase_def allocated_def LOG_ERROR_simps
      split: if_splits)

lemma allocated_MetaDim_clear: "allocated s \<Longrightarrow> allocated (MetaDim_clear s)"
  by (simp add: MetaDim_clear_def allocated_def)

lemma allocated_MetaGroup_create: "allocated s \<Longrightarrow> allocated (snd (MetaGroup_create N s))"
  by (auto simp add: MetaGroup_create_def make_shared_MetaGroup_def allocated_def
      LOG_ERROR_simps less_Suc_eq)

lemma allocated_MetaGroup_destroy: "allocated s \<Longrightarrow> allocated (snd (MetaGroup_destroy N s))"
  by (auto simp add: MetaGroup_destroy_def map_erase_def allocated_def LOG_ERROR_simps
      split: if_splits)

lemma allocated_addField: "allocated (snd (addField this F s)) = allocated s"
  by (rule allocated_frame) (simp_all add: addField_def LOG_ERROR_simps)

lemma allocated_removeField: "allocated (snd (removeField this F s)) = allocated s"
  by (rule allocated_frame) (simp_all add: removeField_def set_erase_def LOG_ERROR_simps)

text \<open>\<open>MetaDim::create\<close> never follows a null pointer: it always returns.\<close>

lemma MetaDim_create_returns: "\<exists>r s'. MetaDim_create N L s = Inr (r, s')"
proof (cases "MetaDim_has N s")
  case False
  then show ?thesis by (simp add: MetaDim_create_fresh)
next
  case True
  from MetaDim_has_lookup [OF True] obtain a where "fmlookup (AllDims s) N = Some a" ..
  then have l1: "fmlookup (AllDims (snd (make_shared_MetaDim s))) N = Some a"
    by (simp add: make_shared_MetaDim_simps)
  then have "MetaDim_has N (snd (make_shared_MetaDim s))"
    by (simp add: MetaDim_has_def fmdomI)
  then show ?thesis
    by (simp add: MetaDim_create_def split_beta MetaDim_get_known [OF l1])
qed

subsection \<open>Creating a dimension again\<close>

text \<open>
  C3. Let the dimension \<open>D\<close> be defined as the object \<open>a\<close> with length \<open>L\<close>, and let
  \<open>L2\<close> differ from \<open>L\<close>. Then \<open>create(D, L2)\<close> returns the null pointer and reports the
  conflict of lengths. The registry is as before: the map \<open>AllDims\<close> and the object
  \<open>a\<close> are unchanged, so that \<open>get(D)\<close> still returns \<open>a\<close> and its length is \<open>L\<close>.
  The other two registries are untouched as well. The state is taken to be well formed
  (\<open>allocated\<close>), as every state is that the operations produce from the start.
\<close>

theorem conflicting_dim_create_rejected:
  assumes "allocated s"
    and "fmlookup (AllDims s) D = Some a"
    and "getLength a s = L"
    and "L2 \<noteq> L"
  shows "\<exists>s'. MetaDim_create D L2 s = Inr (None, s') \<and>
              ErrorLog s' = ErrorLog s @ [DimLengthConflict D] \<and>
              AllDims s' = AllDims s \<and> DimStore s' a = DimStore s a \<and>
              MetaDim_get D s' = (Some a, s') \<and> getLength a s' = L \<and>
              AllFields s' = AllFields s \<and> AllGroups s' = AllGroups s"
proof -
  let ?s' = "LOG_ERROR (DimLengthConflict D) (snd (make_shared_MetaDim s))"
  from assms(3,4) have "Length (DimStore s a) \<noteq> L2" by (auto simp add: getLength_def)
  with MetaDim_create_known [OF assms(1,2), of L2]
  have c: "MetaDim_create D L2 s = Inr (None, ?s')" by simp
  from allocatedD [OF assms(1,2)] have ne: "a \<noteq> NextAddr s" by simp
  have log: "ErrorLog ?s' = ErrorLog s @ [DimLengthConflict D]"
    by (simp add: LOG_ERROR_simps make_shared_MetaDim_simps)
  have dims: "AllDims ?s' = AllDims s"
    by (simp add: LOG_ERROR_simps make_shared_MetaDim_simps)
  have obj: "DimStore ?s' a = DimStore s a"
    using ne by (simp add: LOG_ERROR_simps make_shared_MetaDim_simps)
  have "fmlookup (AllDims ?s') D = Some a" using assms(2) dims by simp
  then have g: "MetaDim_get D ?s' = (Some a, ?s')" by (rule MetaDim_get_known)
  have len: "getLength a ?s' = L" using obj assms(3) by (simp add: getLength_def)
  have other: "AllFields ?s' = AllFields s" "AllGroups ?s' = AllGroups s"
    by (simp_all add: LOG_ERROR_simps make_shared_MetaDim_simps)
  from c log dims obj g len other show ?thesis by blast
qed

lemma one_dim_state:
  "MetaDim_create ''D'' 5 init_globals =
     Inr (Some 0, init_globals\<lparr>DimStore := (DimStore init_globals)(0 := \<lparr>DimName = ''D'', Length = 5\<rparr>),
            NextAddr := Suc 0, AllDims := fmupd ''D'' 0 fmempty\<rparr>)"
proof -
  have "\<not> MetaDim_has ''D'' init_globals" by (simp add: MetaDim_has_def init_globals_def)
  from MetaDim_create_fresh [OF this, of 5] show ?thesis by (simp add: init_globals_def)
qed

text \<open>The scenario of the spec: \<open>create("D", 5)\<close> at program start, then \<open>create("D", 7)\<close>.\<close>

theorem conflicting_dim_create_rejected_witness:
  "(let s = snd (projr (MetaDim_create ''D'' 5 init_globals))
    in allocated s \<and> fmlookup (AllDims s) ''D'' = Some 0 \<and> getLength 0 s = 5 \<and>
       (\<exists>s'. MetaDim_create ''D'' 7 s = Inr (None, s') \<and>
             MetaDim_get ''D'' s' = (Some 0, s') \<and> getLength 0 s' = 5))"
proof -
  let ?s = "snd (projr (MetaDim_create ''D'' 5 init_globals))"
  have al: "allocated ?s"
    by (rule allocated_MetaDim_create [OF allocated_init, of "''D''" 5 "Some 0"])
       (simp add: one_dim_state)
  have lk: "fmlookup (AllDims ?s) ''D'' = Some 0" by (simp add: one_dim_state)
  have ln: "getLength 0 ?s = 5" by (simp add: one_dim_state getLength_def)
  have ne: "(7 :: I4) \<noteq> 5" by simp
  from conflicting_dim_create_rejected [OF al lk ln ne] al lk ln
  show ?thesis unfolding Let_def by blast
qed


lemma count_after_new_dim:
  "\<not> MetaDim_has N s \<Longrightarrow>
   getNumDefinedDims (s\<lparr>DimStore := st, NextAddr := n, AllDims := fmupd N a (AllDims s)\<rparr>) =
     getNumDefinedDims s + 1"
  by (simp add: getNumDefinedDims_def MetaDim_has_def fcard_finsert_if)

text \<open>
  C4. Two calls of \<open>create\<close> with the same name and length return the same pointer, and
  the second call adds no dimension. When the name was not defined before the first
  call, that pointer is the new object, which holds the name and the length, and the
  number of defined dimensions has grown by exactly one over the two calls. (When the
  name was defined before, both calls return the object already registered, or both
  return null if its length differs.) The state is taken to be well formed.
\<close>

theorem dim_create_idempotent:
  assumes "allocated s"
  shows "\<exists>r s1 s2.
           MetaDim_create N L s = Inr (r, s1) \<and>
           MetaDim_create N L s1 = Inr (r, s2) \<and>
           AllDims s2 = AllDims s1 \<and>
           getNumDefinedDims s2 = getNumDefinedDims s1 \<and>
           (\<not> MetaDim_has N s \<longrightarrow>
              r = Some (NextAddr s) \<and>
              DimStore s2 (NextAddr s) = \<lparr>DimName = N, Length = L\<rparr> \<and>
              getNumDefinedDims s2 = getNumDefinedDims s + 1)"
proof (cases "MetaDim_has N s")
  case False
  let ?a = "NextAddr s"
  let ?s1 = "s\<lparr>DimStore := (DimStore s)(?a := \<lparr>DimName = N, Length = L\<rparr>),
            NextAddr := Suc ?a, AllDims := fmupd N ?a (AllDims s)\<rparr>"
  let ?s2 = "snd (make_shared_MetaDim ?s1)"
  have c1: "MetaDim_create N L s = Inr (Some ?a, ?s1)"
    by (rule MetaDim_create_fresh [OF False])
  have al1: "allocated ?s1" by (rule allocated_MetaDim_create [OF assms c1])
  have lk1: "fmlookup (AllDims ?s1) N = Some ?a" by simp
  have "Length (DimStore ?s1 ?a) = L" by simp
  with MetaDim_create_known [OF al1 lk1, of L]
  have c2: "MetaDim_create N L ?s1 = Inr (Some ?a, ?s2)" by simp
  have d: "AllDims ?s2 = AllDims ?s1" by (simp add: make_shared_MetaDim_simps)
  then have n21: "getNumDefinedDims ?s2 = getNumDefinedDims ?s1"
    by (simp add: getNumDefinedDims_def)
  have obj: "DimStore ?s2 ?a = \<lparr>DimName = N, Length = L\<rparr>"
    by (simp add: make_shared_MetaDim_def)
  have "getNumDefinedDims ?s1 = getNumDefinedDims s + 1"
    by (rule count_after_new_dim [OF False])
  with n21 have n2: "getNumDefinedDims ?s2 = getNumDefinedDims s + 1" by simp
  from c1 c2 d n21 obj n2 show ?thesis by blast
next
  case True
  from MetaDim_has_lookup [OF this] obtain a where a: "fmlookup (AllDims s) N = Some a" ..
  let ?m = "snd (make_shared_MetaDim s)"
  let ?r = "if Length (DimStore s a) \<noteq> L then None else Some a"
  let ?s1 = "if Length (DimStore s a) \<noteq> L then LOG_ERROR (DimLengthConflict N) ?m else ?m"
  let ?m1 = "snd (make_shared_MetaDim ?s1)"
  let ?s2 = "if Length (DimStore s a) \<noteq> L then LOG_ERROR (DimLengthConflict N) ?m1 else ?m1"
  have c1: "MetaDim_create N L s = Inr (?r, ?s1)"
    by (simp add: MetaDim_create_known [OF assms a])
  have al1: "allocated ?s1" by (rule allocated_MetaDim_create [OF assms c1])
  from allocatedD [OF assms a] have ne: "a \<noteq> NextAddr s" by simp
  have lk1: "fmlookup (AllDims ?s1) N = Some a"
    using a by (simp add: LOG_ERROR_simps make_shared_MetaDim_simps)
  have len1: "Length (DimStore ?s1 a) = Length (DimStore s a)"
    using ne by (simp add: LOG_ERROR_simps make_shared_MetaDim_simps)
  have c2: "MetaDim_create N L ?s1 = Inr (?r, ?s2)"
    unfolding MetaDim_create_known [OF al1 lk1] len1 by simp
  have d: "AllDims ?s2 = AllDims ?s1"
    by (simp add: LOG_ERROR_simps make_shared_MetaDim_simps)
  then have n21: "getNumDefinedDims ?s2 = getNumDefinedDims ?s1"
    by (simp add: getNumDefinedDims_def)
  from c1 c2 d n21 True show ?thesis by blast
qed

text \<open>
  At program start: \<open>create("NCells", 100)\<close> twice gives the object at address 0 both
  times and one defined dimension.
\<close>

theorem dim_create_idempotent_witness:
  "allocated init_globals \<and> \<not> MetaDim_has ''NCells'' init_globals \<and>
   getNumDefinedDims init_globals = 0 \<and>
   (\<exists>s1 s2. MetaDim_create ''NCells'' 100 init_globals = Inr (Some 0, s1) \<and>
            MetaDim_create ''NCells'' 100 s1 = Inr (Some 0, s2) \<and>
            getNumDefinedDims s2 = 1)"
proof -
  have fresh: "\<not> MetaDim_has ''NCells'' init_globals"
    by (simp add: MetaDim_has_def init_globals_def)
  have zero: "getNumDefinedDims init_globals = 0" "NextAddr init_globals = 0"
    by (simp_all add: getNumDefinedDims_def init_globals_def)
  from dim_create_idempotent [OF allocated_init, of "''NCells''" 100] fresh zero allocated_init
  show ?thesis by auto
qed

section \<open>Group members and destroyed fields\<close>

lemma LOG_ERROR_neq: "LOG_ERROR d s \<noteq> s" "s \<noteq> LOG_ERROR d s"
proof -
  have "ErrorLog (LOG_ERROR d s) \<noteq> ErrorLog s" by (simp add: LOG_ERROR_simps)
  then show "LOG_ERROR d s \<noteq> s" "s \<noteq> LOG_ERROR d s" by auto
qed

lemma LOG_ERROR_inject: "LOG_ERROR d s = LOG_ERROR d' s \<longleftrightarrow> d = d'"
proof
  assume "LOG_ERROR d s = LOG_ERROR d' s"
  then have "ErrorLog (LOG_ERROR d s) = ErrorLog (LOG_ERROR d' s)" by simp
  then show "d = d'" by (simp add: LOG_ERROR_simps)
qed simp

lemma getField_eq:
  "getField G F s =
     (if \<not> hasField G F s
      then (None, LOG_ERROR (FieldNotInGroup F (GrpName (GroupStore s G))) s)
      else if \<not> MetaData_has F s then (None, LOG_ERROR (FieldGetNotFound F) s)
      else (fmlookup (AllFields s) F, s))"
  by (simp add: getField_def MetaData_get_def)

lemma MetaData_destroy_unregisters: "\<not> MetaData_has F (snd (MetaData_destroy F s))"
  by (simp add: MetaData_destroy_def MetaData_has_def map_erase_def LOG_ERROR_simps)

lemma MetaData_destroy_known:
  "MetaData_has F s \<Longrightarrow>
   MetaData_destroy F s = (0, s\<lparr>AllFields := fmdrop F (AllFields s)\<rparr>)"
  by (simp add: MetaData_destroy_def MetaData_has_def map_erase_def)

lemma MetaData_destroy_groups:
  "GroupStore (snd (MetaData_destroy F s)) = GroupStore s"
  by (simp add: MetaData_destroy_def map_erase_def LOG_ERROR_simps split_beta Let_def)

text \<open>
  C8. \<open>getField(F)\<close> of a group takes the group's own failure exit (null result, report
  "field not in group") exactly when \<open>F\<close> is not in the member set, whether or not a
  record \<open>F\<close> is registered. For a member, the result is that of \<open>MetaData::get(F)\<close>:
  the registered record, or, when none is registered, a null result with the registry's
  own report and no other effect. In particular, after \<open>MetaData::destroy(F)\<close> a member
  \<open>F\<close> is still a member (\<open>hasField\<close> holds) and \<open>getField(F)\<close> returns null in that
  second way.
\<close>

theorem getField_failure_modes:
  "(getField G F s = (None, LOG_ERROR (FieldNotInGroup F (GrpName (GroupStore s G))) s)
      \<longleftrightarrow> \<not> hasField G F s) \<and>
   (hasField G F s \<and> \<not> MetaData_has F s \<longrightarrow>
      getField G F s = (None, LOG_ERROR (FieldGetNotFound F) s)) \<and>
   (hasField G F s \<and> MetaData_has F s \<longrightarrow>
      (\<exists>a. getField G F s = (Some a, s) \<and> MetaData_get F s = (Some a, s))) \<and>
   (hasField G F s \<longrightarrow>
      hasField G F (snd (MetaData_destroy F s)) \<and>
      getField G F (snd (MetaData_destroy F s)) =
        (None, LOG_ERROR (FieldGetNotFound F) (snd (MetaData_destroy F s))))"
proof -
  have one: "getField G F s = (None, LOG_ERROR (FieldNotInGroup F (GrpName (GroupStore s G))) s)
      \<longleftrightarrow> \<not> hasField G F s"
    by (auto simp add: getField_eq LOG_ERROR_inject LOG_ERROR_neq)
  have two: "hasField G F s \<and> \<not> MetaData_has F s \<longrightarrow>
      getField G F s = (None, LOG_ERROR (FieldGetNotFound F) s)"
    by (simp add: getField_eq)
  have three: "hasField G F s \<and> MetaData_has F s \<longrightarrow>
      (\<exists>a. getField G F s = (Some a, s) \<and> MetaData_get F s = (Some a, s))"
  proof
    assume h: "hasField G F s \<and> MetaData_has F s"
    then obtain a where "fmlookup (AllFields s) F = Some a"
      by (auto simp add: MetaData_has_def elim: fmdomE)
    with h show "\<exists>a. getField G F s = (Some a, s) \<and> MetaData_get F s = (Some a, s)"
      by (simp add: getField_eq MetaData_get_def)
  qed
  have four: "hasField G F s \<longrightarrow>
      hasField G F (snd (MetaData_destroy F s)) \<and>
      getField G F (snd (MetaData_destroy F s)) =
        (None, LOG_ERROR (FieldGetNotFound F) (snd (MetaData_destroy F s)))"
  proof
    assume h: "hasField G F s"
    then have m: "hasField G F (snd (MetaData_destroy F s))"
      by (simp add: hasField_def MetaData_destroy_groups)
    with MetaData_destroy_unregisters [of F s]
    show "hasField G F (snd (MetaData_destroy F s)) \<and>
      getField G F (snd (MetaData_destroy F s)) =
        (None, LOG_ERROR (FieldGetNotFound F) (snd (MetaData_destroy F s)))"
      by (simp add: getField_eq)
  qed
  from one two three four show ?thesis by blast
qed

text \<open>
  The scenario of the spec: field \<open>F\<close> (address 0) and group \<open>G\<close> (address 1) are
  created, \<open>G.addField("F")\<close> succeeds and \<open>G.getField("F")\<close> is the record; then the
  field is destroyed. A name that was never added takes the other exit.
\<close>

theorem getField_failure_modes_witness:
  "(let s1 = snd (MetaData_create ''F'' init_globals);
        s2 = snd (MetaGroup_create ''G'' s1);
        s3 = snd (addField 1 ''F'' s2);
        s4 = snd (MetaData_destroy ''F'' s3)
    in fst (addField 1 ''F'' s2) = 0 \<and> hasField 1 ''F'' s3 \<and> MetaData_has ''F'' s3 \<and>
       getField 1 ''F'' s3 = (Some 0, s3) \<and>
       fst (MetaData_destroy ''F'' s3) = 0 \<and>
       hasField 1 ''F'' s4 \<and>
       getField 1 ''F'' s4 = (None, LOG_ERROR (FieldGetNotFound ''F'') s4) \<and>
       \<not> hasField 1 ''H'' s3 \<and>
       getField 1 ''H'' s3 = (None, LOG_ERROR (FieldNotInGroup ''H'' ''G'') s3))"
proof -
  let ?s1 = "snd (MetaData_create ''F'' init_globals)"
  let ?s2 = "snd (MetaGroup_create ''G'' ?s1)"
  let ?s3 = "snd (addField 1 ''F'' ?s2)"
  let ?s4 = "snd (MetaData_destroy ''F'' ?s3)"
  have s3: "?s3 = init_globals\<lparr>
      DataStore := (DataStore init_globals)(0 :=
         \<lparr>FieldName = ''F'', MetaMap = fmempty, NDims = 0, DimNames = []\<rparr>),
      GroupStore := (GroupStore init_globals)(1 := \<lparr>GrpName = ''G'', Fields = {|''F''|}\<rparr>),
      NextAddr := 2,
      AllFields := fmupd ''F'' 0 fmempty,
      AllGroups := fmupd ''G'' 1 fmempty\<rparr>"
    and r3: "fst (addField 1 ''F'' ?s2) = 0"
    by (simp_all add: MetaData_create_def MetaData_has_def make_shared_MetaData_def
        MetaGroup_create_def MetaGroup_has_def make_shared_MetaGroup_def addField_def
        init_globals_def)
  have m: "hasField 1 ''F'' ?s3" and k: "MetaData_has ''F'' ?s3"
    and lk: "MetaData_get ''F'' ?s3 = (Some 0, ?s3)"
    and nm: "\<not> hasField 1 ''H'' ?s3" and gn: "GrpName (GroupStore ?s3 1) = ''G''"
    unfolding s3 by (simp_all add: hasField_def MetaData_has_def MetaData_get_def init_globals_def)
  have d: "fst (MetaData_destroy ''F'' ?s3) = 0"
    by (simp only: MetaData_destroy_known [OF k] fst_conv)
  from getField_failure_modes [of 1 "''F''" ?s3] getField_failure_modes [of 1 "''H''" ?s3]
    r3 m k lk nm gn d
  show ?thesis unfolding Let_def by auto
qed

section \<open>Clearing the registries\<close>

lemma MetaGroup_destroy_known:
  "MetaGroup_has N s \<Longrightarrow>
   MetaGroup_destroy N s = (0, s\<lparr>AllGroups := fmdrop N (AllGroups s)\<rparr>)"
  by (simp add: MetaGroup_destroy_def MetaGroup_has_def map_erase_def)

text \<open>
  C5 (as amended). In any state, however many dimensions, fields and groups it holds:
  \<open>MetaDim::clear()\<close> makes \<open>getNumDefinedDims()\<close> 0 and \<open>MetaDim::has\<close> false for every
  name; \<open>MetaData::clear()\<close> empties \<open>AllFields\<close>, so that \<open>MetaData::has\<close> is false
  for every name. Each of the two leaves the other two registries and all objects as
  they were. The class \<open>MetaGroup\<close> has no \<open>clear()\<close>: a group goes away through
  \<open>MetaGroup::destroy(Name)\<close>, which for a defined group returns 0, makes \<open>has(Name)\<close>
  false, keeps every other group and leaves the other two registries as they were.
\<close>

theorem clear_resets_own_registry_only:
  "getNumDefinedDims (MetaDim_clear s) = 0 \<and>
   (\<forall>n. \<not> MetaDim_has n (MetaDim_clear s)) \<and>
   MetaDim_clear s = s\<lparr>AllDims := fmempty\<rparr> \<and>
   AllFields (MetaDim_clear s) = AllFields s \<and>
   AllGroups (MetaDim_clear s) = AllGroups s \<and>
   (\<forall>n. MetaData_has n (MetaDim_clear s) = MetaData_has n s) \<and>
   (\<forall>n. MetaGroup_has n (MetaDim_clear s) = MetaGroup_has n s) \<and>
   (\<forall>n. \<not> MetaData_has n (MetaData_clear s)) \<and>
   MetaData_clear s = s\<lparr>AllFields := fmempty\<rparr> \<and>
   AllDims (MetaData_clear s) = AllDims s \<and>
   AllGroups (MetaData_clear s) = AllGroups s \<and>
   getNumDefinedDims (MetaData_clear s) = getNumDefinedDims s \<and>
   (\<forall>n. MetaDim_has n (MetaData_clear s) = MetaDim_has n s) \<and>
   (\<forall>n. MetaGroup_has n (MetaData_clear s) = MetaGroup_has n s) \<and>
   (MetaGroup_has g s \<longrightarrow>
      fst (MetaGroup_destroy g s) = 0 \<and>
      \<not> MetaGroup_has g (snd (MetaGroup_destroy g s)) \<and>
      (\<forall>n. n \<noteq> g \<longrightarrow> MetaGroup_has n (snd (MetaGroup_destroy g s)) = MetaGroup_has n s) \<and>
      AllDims (snd (MetaGroup_destroy g s)) = AllDims s \<and>
      AllFields (snd (MetaGroup_destroy g s)) = AllFields s)"
proof -
  have dims: "getNumDefinedDims (MetaDim_clear s) = 0"
    "\<forall>n. \<not> MetaDim_has n (MetaDim_clear s)"
    "MetaDim_clear s = s\<lparr>AllDims := fmempty\<rparr>"
    "AllFields (MetaDim_clear s) = AllFields s"
    "AllGroups (MetaDim_clear s) = AllGroups s"
    "\<forall>n. MetaData_has n (MetaDim_clear s) = MetaData_has n s"
    "\<forall>n. MetaGroup_has n (MetaDim_clear s) = MetaGroup_has n s"
    by (simp_all add: MetaDim_clear_def getNumDefinedDims_def MetaDim_has_def MetaData_has_def
        MetaGroup_has_def)
  have fields: "\<forall>n. \<not> MetaData_has n (MetaData_clear s)"
    "MetaData_clear s = s\<lparr>AllFields := fmempty\<rparr>"
    "AllDims (MetaData_clear s) = AllDims s"
    "AllGroups (MetaData_clear s) = AllGroups s"
    "getNumDefinedDims (MetaData_clear s) = getNumDefinedDims s"
    "\<forall>n. MetaDim_has n (MetaData_clear s) = MetaDim_has n s"
    "\<forall>n. MetaGroup_has n (MetaData_clear s) = MetaGroup_has n s"
    by (simp_all add: MetaData_clear_def getNumDefinedDims_def MetaDim_has_def MetaData_has_def
        MetaGroup_has_def)
  have groups: "MetaGroup_has g s \<longrightarrow>
      fst (MetaGroup_destroy g s) = 0 \<and>
      \<not> MetaGroup_has g (snd (MetaGroup_destroy g s)) \<and>
      (\<forall>n. n \<noteq> g \<longrightarrow> MetaGroup_has n (snd (MetaGroup_destroy g s)) = MetaGroup_has n s) \<and>
      AllDims (snd (MetaGroup_destroy g s)) = AllDims s \<and>
      AllFields (snd (MetaGroup_destroy g s)) = AllFields s"
    by (auto simp add: MetaGroup_destroy_known MetaGroup_has_def)
  from dims fields groups show ?thesis by blast
qed

lemma populated_state:
  "snd (MetaGroup_create ''G'' (snd (MetaData_create ''F''
         (snd (projr (MetaDim_create ''D'' 5 init_globals)))))) =
   init_globals\<lparr>
      DimStore := (DimStore init_globals)(0 := \<lparr>DimName = ''D'', Length = 5\<rparr>),
      DataStore := (DataStore init_globals)(1 :=
         \<lparr>FieldName = ''F'', MetaMap = fmempty, NDims = 0, DimNames = []\<rparr>),
      GroupStore := (GroupStore init_globals)(Suc (Suc 0) := \<lparr>GrpName = ''G'', Fields = {||}\<rparr>),
      NextAddr := Suc (Suc (Suc 0)),
      AllDims := fmupd ''D'' 0 fmempty,
      AllFields := fmupd ''F'' 1 fmempty,
      AllGroups := fmupd ''G'' (Suc (Suc 0)) fmempty\<rparr>"
  by (simp add: MetaDim_create_def MetaDim_has_def make_shared_MetaDim_def
      MetaData_create_def MetaData_has_def make_shared_MetaData_def
      MetaGroup_create_def MetaGroup_has_def make_shared_MetaGroup_def init_globals_def)

text \<open>
  One dimension, one field and one group; after \<open>MetaDim::clear()\<close> the dimension is
  gone and the field and the group are there, and \<open>MetaGroup::destroy("G")\<close> removes the
  group.
\<close>

theorem clear_resets_own_registry_only_witness:
  "(let s = snd (MetaGroup_create ''G'' (snd (MetaData_create ''F''
                 (snd (projr (MetaDim_create ''D'' 5 init_globals))))))
    in MetaDim_has ''D'' s \<and> MetaData_has ''F'' s \<and> MetaGroup_has ''G'' s \<and>
       getNumDefinedDims s = 1 \<and>
       getNumDefinedDims (MetaDim_clear s) = 0 \<and> \<not> MetaDim_has ''D'' (MetaDim_clear s) \<and>
       MetaData_has ''F'' (MetaDim_clear s) \<and> MetaGroup_has ''G'' (MetaDim_clear s) \<and>
       \<not> MetaData_has ''F'' (MetaData_clear s) \<and> MetaDim_has ''D'' (MetaData_clear s) \<and>
       fst (MetaGroup_destroy ''G'' s) = 0 \<and>
       \<not> MetaGroup_has ''G'' (snd (MetaGroup_destroy ''G'' s)))"
proof -
  let ?s = "snd (MetaGroup_create ''G'' (snd (MetaData_create ''F''
                 (snd (projr (MetaDim_create ''D'' 5 init_globals))))))"
  have p: "MetaDim_has ''D'' ?s" "MetaData_has ''F'' ?s" "MetaGroup_has ''G'' ?s"
    "getNumDefinedDims ?s = 1"
    unfolding populated_state
    by (simp_all add: MetaDim_has_def MetaData_has_def MetaGroup_has_def getNumDefinedDims_def
        fcard_finsert_if)
  from clear_resets_own_registry_only [of ?s "''G''"] p
  show ?thesis unfolding Let_def by metis
qed

text \<open>
  C5 as stated fails for the Group Registry: with a dimension, a field and a group
  defined, calling every \<open>clear()\<close> there is leaves the group defined.
\<close>

theorem group_survives_every_clear:
  "MetaGroup_has ''G''
     (MetaData_clear (MetaDim_clear
        (snd (MetaGroup_create ''G'' (snd (MetaData_create ''F''
           (snd (projr (MetaDim_create ''D'' 5 init_globals)))))))))"
  unfolding populated_state
  by (simp add: MetaGroup_has_def MetaData_clear_def MetaDim_clear_def)

end
